theory Spec2Isabelle
  imports Complex_Main "HOL-Library.AList"
begin

section \<open>Shared data: errors, table cells, entity dictionaries\<close>

text \<open>
  Every Python exception the modelled code can raise is a value of \<open>error\<close>; a function
  that can raise returns \<open>error + 'a\<close> with \<open>Inl\<close> for the exception.
\<close>

datatype error = KeyError | ValueError | TypeError | ZeroDivisionError
  | UndefinedVariableError | SyntaxError | AttributeError | FileNotFoundError

text \<open>
  A cell of a table read by pandas: text, a number, or a missing value.  Numbers (Python
  floats and ints) are modelled by their exact rational value; float rounding is not
  modelled.
\<close>

datatype cell = Str string | Num rat | NaN

text \<open>
  A data frame is stored by column, as pandas does: \<open>nrows\<close> is \<open>len(frame)\<close> and
  \<open>cols\<close> lists the columns in file order, each with its \<open>nrows\<close> cells.
\<close>

record table =
  nrows :: nat
  cols :: "(string \<times> cell list) list"

text \<open>
  A BIDS entity dictionary.  A Python \<open>dict\<close> keeps insertion order, \<open>update\<close> overwrites
  in place or appends, \<open>pop(k, None)\<close> deletes: these are \<open>AList.update\<close> and
  \<open>AList.delete\<close> on an association list.
\<close>

datatype val = S string | I int

type_synonym entities = "(string \<times> val) list"

section \<open>Text helpers\<close>

definition nl :: char where
  "nl = CHR 0x0A"

text \<open>The text made of the given lines, each ended by a newline.\<close>

definition unlines :: "string list \<Rightarrow> string" where
  "unlines ls = concat (map (\<lambda>l. l @ [nl]) ls)"

text \<open>\<open>str(n)\<close> for a natural number and for an integer.\<close>

fun show_nat :: "nat \<Rightarrow> string" where
  "show_nat n = (if n < 10 then [''0123456789'' ! n]
                 else show_nat (n div 10) @ [''0123456789'' ! (n mod 10)])"

declare show_nat.simps [simp del]

definition show_int :: "int \<Rightarrow> string" where
  "show_int i = (if i < 0 then CHR ''-'' # show_nat (nat (- i)) else show_nat (nat i))"

text \<open>The format \<open>{i:02d}\<close> for \<open>i \<ge> 0\<close>: decimal, left-padded with zeros to width 2.\<close>

definition fmt_02d :: "nat \<Rightarrow> string" where
  "fmt_02d i = (if i < 10 then CHR ''0'' # show_nat i else show_nat i)"

text \<open>\<open>str(v)\<close> of an entity value, as \<open>str.format\<close> inserts it.\<close>

fun str_val :: "val \<Rightarrow> string" where
  "str_val (S s) = s"
| "str_val (I i) = show_int i"

text \<open>\<open>s.upper()\<close> on ASCII letters; every other character is kept.\<close>

definition upper_char :: "char \<Rightarrow> char" where
  "upper_char c =
     (case map_of (zip ''abcdefghijklmnopqrstuvwxyz'' ''ABCDEFGHIJKLMNOPQRSTUVWXYZ'') c of
        Some u \<Rightarrow> u
      | None \<Rightarrow> c)"

definition upper :: "string \<Rightarrow> string" where
  "upper s = map upper_char s"

text \<open>\<open>s.split(d)\<close> for a one-character separator: never empty, \<open>''.split('.') == ['']\<close>.\<close>

fun split_on :: "char \<Rightarrow> string \<Rightarrow> string list" where
  "split_on d [] = [[]]"
| "split_on d (c # cs) =
     (if c = d then [] # split_on d cs
      else (case split_on d cs of
              [] \<Rightarrow> [[c]]
            | p # ps \<Rightarrow> (c # p) # ps))"

section \<open>The model specification\<close>

text \<open>
  One entry of \<open>Contrasts\<close> in the model file.  Weights are JSON numbers.
\<close>

record contrast =
  c_Name :: string
  c_Type :: string
  c_ConditionList :: "string list"
  c_Weights :: "rat list"

text \<open>
  A step of the model file, as the interfaces read it.  A key that may be absent is an
  option: \<open>model_X\<close> is \<open>model['Model']['X']\<close>, \<open>Contrasts\<close> is \<open>model['Contrasts']\<close>,
  \<open>DummyContrasts\<close> is \<open>None\<close> when the key is absent, \<open>Some None\<close> when the dictionary
  has no \<open>Conditions\<close>, and \<open>Some (Some cs)\<close> when it lists conditions.
\<close>

record level_model =
  model_X :: "string list option"
  Contrasts :: "contrast list option"
  DummyContrasts :: "string list option option"

section \<open>GetRunModelInfo: the run-level model compiler\<close>

subsection \<open>Data frames\<close>

definition column :: "table \<Rightarrow> string \<Rightarrow> cell list option" where
  "column t c = map_of (cols t) c"

definition select_rows :: "bool list \<Rightarrow> 'a list \<Rightarrow> 'a list" where
  "select_rows keep xs = map snd (filter fst (zip keep xs))"

text \<open>
  The selection of event rows is \<open>event_data.query(f'{event_column} == "{event_name}"')\<close>:
  the two names are spliced into the text of a query expression, which pandas parses and
  evaluates.  \<open>query_text\<close> is that text.
\<close>

definition query_text :: "string \<Rightarrow> string \<Rightarrow> string" where
  "query_text event_column event_name =
     event_column @ '' == '' @ [CHR 0x22] @ event_name @ [CHR 0x22]"

text \<open>
  The expression is known to mean "the cell of this column is this text" when the column
  name is a plain identifier that the evaluator resolves to the column, the value stays
  inside its string literal, and the column holds text:
  \<^item> \<open>is_identifier\<close>: an ASCII letter or underscore followed by ASCII letters, digits and
    underscores, and none of \<open>reserved_names\<close> (the Python keywords and the function
    names of the numerical evaluator);
  \<^item> \<open>plain_text\<close>: no double quote, backslash, line break or null character;
  \<^item> \<open>is_text_column\<close>: no numeric cell, and a text cell unless the column is empty
    (pandas reads such a column with the object type and compares it with a string
    cell by cell; a missing cell is not equal to any text).
\<close>

definition reserved_names :: "string list" where
  "reserved_names =
     [''False'', ''None'', ''True'', ''and'', ''as'', ''assert'', ''async'', ''await'',
      ''break'', ''class'', ''continue'', ''def'', ''del'', ''elif'', ''else'', ''except'',
      ''finally'', ''for'', ''from'', ''global'', ''if'', ''import'', ''in'', ''is'',
      ''lambda'', ''nonlocal'', ''not'', ''or'', ''pass'', ''raise'', ''return'', ''try'',
      ''while'', ''with'', ''yield'',
      ''sin'', ''cos'', ''exp'', ''log'', ''expm1'', ''log1p'', ''sqrt'', ''sinh'', ''cosh'',
      ''tanh'', ''arcsin'', ''arccos'', ''arctan'', ''arccosh'', ''arcsinh'', ''arctanh'',
      ''abs'', ''log10'', ''floor'', ''ceil'', ''arctan2'', ''sum'', ''prod'', ''where'']"

definition is_identifier :: "string \<Rightarrow> bool" where
  "is_identifier s =
     (case s of
        [] \<Rightarrow> False
      | c # cs \<Rightarrow>
          c \<in> set ''abcdefghijklmnopqrstuvwxyzABCDEFGHIJKLMNOPQRSTUVWXYZ_''
          \<and> list_all (\<lambda>d. d \<in> set ''abcdefghijklmnopqrstuvwxyzABCDEFGHIJKLMNOPQRSTUVWXYZ_0123456789'') cs
          \<and> s \<notin> set reserved_names)"

definition plain_text :: "string \<Rightarrow> bool" where
  "plain_text v =
     list_all (\<lambda>ch. ch \<noteq> CHR 0x22 \<and> ch \<noteq> CHR 0x5C \<and> ch \<noteq> CHR 0x0A \<and> ch \<noteq> CHR 0x0D
                    \<and> ch \<noteq> CHR 0x00) v"

definition is_text_column :: "cell list \<Rightarrow> bool" where
  "is_text_column cs =
     (list_all (\<lambda>x. case x of Num _ \<Rightarrow> False | _ \<Rightarrow> True) cs
      \<and> (cs = [] \<or> list_ex (\<lambda>x. case x of Str _ \<Rightarrow> True | _ \<Rightarrow> False) cs))"

text \<open>
  \<open>query_eq\<close> is the selection.  In the case just described it returns the rows whose
  cell in the column is the text.  Every other expression (a column name that is not an
  identifier, such as \<open>trial-type\<close>, or a reserved word; a name that is not a column,
  which pandas may resolve to the index or reject as undefined; a value that leaves its
  quotes; a numeric column) is handed to \<open>query\<close>, the evaluator of pandas, a parameter
  that may return any frame or raise.
\<close>

definition query_eq ::
  "(table \<Rightarrow> string \<Rightarrow> error + table) \<Rightarrow> table \<Rightarrow> string \<Rightarrow> string \<Rightarrow> error + table" where
  "query_eq query t c v =
     (case column t c of
        None \<Rightarrow> query t (query_text c v)
      | Some cs \<Rightarrow>
          if is_identifier c \<and> plain_text v \<and> is_text_column cs then
            (let keep = map (\<lambda>x. x = Str v) cs
             in Inr \<lparr>nrows = length (filter id keep),
                     cols = map (\<lambda>(n, xs). (n, select_rows keep xs)) (cols t)\<rparr>)
          else query t (query_text c v))"

text \<open>\<open>frame.empty\<close>: some axis has length 0.\<close>

definition empty_frame :: "table \<Rightarrow> bool" where
  "empty_frame t = (nrows t = 0 \<or> cols t = [])"

text \<open>\<open>frame.fillna(0)\<close>.\<close>

definition fillna0 :: "table \<Rightarrow> table" where
  "fillna0 t = t\<lparr>cols := map (\<lambda>(n, xs). (n, map (\<lambda>x. if x = NaN then Num 0 else x) xs)) (cols t)\<rparr>"

subsection \<open>\<open>_get_model_info\<close>\<close>

record run_info =
  conditions :: "string list"
  onsets :: "cell list list"
  amplitudes :: "rat list list"
  durations :: "cell list list"
  regressor_names :: "string list"
  regressors :: "cell list list"

definition run_info0 :: run_info where
  "run_info0 = \<lparr>conditions = [], onsets = [], amplitudes = [], durations = [],
                 regressor_names = [], regressors = []\<rparr>"

text \<open>
  The loop over \<open>level_model['Model']['X']\<close>.  A predictor with a dot is split at the
  dots; unpacking into two names raises \<open>ValueError\<close> unless there is exactly one dot.
\<close>

fun model_info_loop ::
  "(table \<Rightarrow> string \<Rightarrow> error + table) \<Rightarrow> table \<Rightarrow> table \<Rightarrow> string list \<Rightarrow> run_info
     \<Rightarrow> error + run_info" where
  "model_info_loop query event_data conf_data [] ri = Inr ri"
| "model_info_loop query event_data conf_data (regressor # rest) ri =
     (if CHR ''.'' \<in> set regressor then
        (case split_on CHR ''.'' regressor of
           [event_column, event_name] \<Rightarrow>
             (case query_eq query event_data event_column event_name of
                Inl e \<Rightarrow> Inl e
              | Inr event_frame \<Rightarrow>
                  if empty_frame event_frame then model_info_loop query event_data conf_data rest ri
                  else (case column event_frame ''onset'' of
                          None \<Rightarrow> Inl KeyError
                        | Some ons \<Rightarrow>
                            (case column event_frame ''duration'' of
                               None \<Rightarrow> Inl KeyError
                             | Some durs \<Rightarrow>
                                 model_info_loop query event_data conf_data rest
                                   (ri\<lparr>conditions := conditions ri @ [regressor],
                                       onsets := onsets ri @ [ons],
                                       durations := durations ri @ [durs],
                                       amplitudes := amplitudes ri
                                         @ [replicate (nrows event_frame) 1]\<rparr>))))
         | _ \<Rightarrow> Inl ValueError)
      else (case column conf_data regressor of
              None \<Rightarrow> Inl KeyError
            | Some vs \<Rightarrow>
                model_info_loop query event_data conf_data rest
                  (ri\<lparr>regressor_names := regressor_names ri @ [regressor],
                      regressors := regressors ri @ [vs]\<rparr>)))"


definition get_model_info ::
  "(table \<Rightarrow> string \<Rightarrow> error + table) \<Rightarrow> level_model \<Rightarrow> table \<Rightarrow> table \<Rightarrow> error + (run_info \<times> string list \<times> string list)" where
  "get_model_info query model event_data conf_data =
     (case model_X model of
        None \<Rightarrow> Inl KeyError
      | Some xs \<Rightarrow>
          (case model_info_loop query event_data (fillna0 conf_data) xs run_info0 of
             Inl e \<Rightarrow> Inl e
           | Inr ri \<Rightarrow> Inr (ri, conditions ri, regressor_names ri)))"

subsection \<open>\<open>_get_contrasts\<close>\<close>

text \<open>A contrast as handed to the first-level design: name, type, conditions, weights.\<close>

type_synonym contrast_spec = "string \<times> string \<times> string list \<times> rat list"

fun dummy_loop ::
  "string list \<Rightarrow> string list \<Rightarrow> contrast_spec list \<times> string list
     \<Rightarrow> contrast_spec list \<times> string list" where
  "dummy_loop event_names [] acc = acc"
| "dummy_loop event_names (dcontrast # rest) (contrast_spec, contrast_names) =
     (if dcontrast \<notin> set event_names \<and> CHR ''.'' \<in> set dcontrast
      then dummy_loop event_names rest (contrast_spec, contrast_names)
      else dummy_loop event_names rest
             (contrast_spec @ [(dcontrast, ''T'', [dcontrast], [1])],
              contrast_names @ [dcontrast]))"

text \<open>
  The loop over the explicit contrasts.  The weight of \<open>task_vs_baseline\<close> is the Python
  expression \<open>1 * 1 / len(event_names)\<close>, which raises \<open>ZeroDivisionError\<close> for an empty
  list, after the name was appended.
\<close>

fun real_loop ::
  "string list \<Rightarrow> contrast list \<Rightarrow> contrast_spec list \<times> string list
     \<Rightarrow> error + (contrast_spec list \<times> string list)" where
  "real_loop event_names [] acc = Inr acc"
| "real_loop event_names (contrast # rest) (contrast_spec, contrast_names) =
     (if \<not> set event_names \<subseteq> set (c_ConditionList contrast)
      then real_loop event_names rest (contrast_spec, contrast_names)
      else if c_Name contrast = ''task_vs_baseline'' then
        (if length event_names = 0 then Inl ZeroDivisionError
         else real_loop event_names rest
                (contrast_spec @ [(c_Name contrast, upper (c_Type contrast), event_names,
                     replicate (length event_names) (1 * 1 / of_nat (length event_names)))],
                 contrast_names @ [c_Name contrast]))
      else real_loop event_names rest
             (contrast_spec @ [(c_Name contrast, upper (c_Type contrast),
                  c_ConditionList contrast, c_Weights contrast)],
              contrast_names @ [c_Name contrast]))"

definition get_contrasts ::
  "level_model \<Rightarrow> string list \<Rightarrow> error + (contrast_spec list \<times> string list)" where
  "get_contrasts model event_names =
     (case Contrasts model of
        None \<Rightarrow> Inl KeyError
      | Some real_contrasts \<Rightarrow>
          (case DummyContrasts model of
             None \<Rightarrow> Inl KeyError
           | Some dc \<Rightarrow>
               (case (case dc of Some conds \<Rightarrow> Some conds | None \<Rightarrow> model_X model) of
                  None \<Rightarrow> Inl KeyError
                | Some dummy_contrasts \<Rightarrow>
                    real_loop event_names real_contrasts
                      (dummy_loop event_names dummy_contrasts ([], [])))))"

subsection \<open>\<open>_get_motion_parameters\<close>, \<open>_get_entities\<close>, \<open>_detrend_polynomial\<close>\<close>

text \<open>
  The six motion columns are selected from the confound table; a missing one raises
  \<open>KeyError\<close>.  The selected columns are what is written to the motion file.
\<close>

definition get_motion_parameters :: "table \<Rightarrow> error + cell list list" where
  "get_motion_parameters confound_data =
     (let wanted = [''rot_x'', ''rot_y'', ''rot_z'', ''trans_x'', ''trans_y'', ''trans_z'']
      in if list_all (\<lambda>c. column confound_data c \<noteq> None) wanted
         then Inr (map (\<lambda>c. the (column confound_data c)) wanted)
         else Inl KeyError)"

text \<open>
  \<open>_get_entities\<close> updates the dictionary it is given and appends a copy for every
  contrast; the caller's \<open>run_entities\<close> keeps the last update, so it is returned too.
\<close>

fun get_entities_loop :: "string list \<Rightarrow> entities \<Rightarrow> entities list \<Rightarrow> entities list \<times> entities" where
  "get_entities_loop [] run_entities contrast_entities = (contrast_entities, run_entities)"
| "get_entities_loop (contrast_name # rest) run_entities contrast_entities =
     (let run_entities' = AList.update ''contrast'' (S contrast_name) run_entities
      in get_entities_loop rest run_entities' (contrast_entities @ [run_entities']))"

definition get_entities :: "contrast_spec list \<Rightarrow> entities \<Rightarrow> entities list \<times> entities" where
  "get_entities contrasts run_entities =
     get_entities_loop (map fst contrasts) run_entities []"

text \<open>
  \<open>range(0, detrend_poly + 1)\<close> names \<open>legendre00\<close>, \<open>legendre01\<close>, ...; the arrays
  \<open>legendre(i)(np.linspace(-1, 1, n))\<close> come from scipy and numpy and are the parameter
  \<open>legendre\<close> (degree, then number of points).
\<close>

definition detrend_polynomial ::
  "(nat \<Rightarrow> nat \<Rightarrow> rat list) \<Rightarrow> nat \<Rightarrow> int \<Rightarrow> string list \<times> cell list list" where
  "detrend_polynomial legendre n detrend_poly =
     (let degrees = [0 ..< nat (detrend_poly + 1)]
      in (map (\<lambda>i. ''legendre'' @ fmt_02d i) degrees,
          map (\<lambda>i. map Num (legendre i n)) degrees))"

subsection \<open>\<open>GetRunModelInfo._list_outputs\<close>\<close>

text \<open>
  The inputs are the tables and dictionaries the interface loads from the files that
  \<open>_get_required_files\<close> locates: the confound table, the run metadata, the event table
  and the entities parsed from the name of the functional file.  The two image paths
  among the outputs do not depend on the tables and are left out.  \<open>n_vols\<close>, the length
  of the confound file read once more, is the number of rows of the confound table.
  \<open>detrend_poly\<close> is \<open>None\<close> or an integer; Python takes \<open>None\<close> and \<open>0\<close> as false.
\<close>

record run_outputs =
  out_run_info :: run_info
  out_run_contrasts :: "contrast_spec list"
  out_run_entities :: entities
  out_contrast_entities :: "entities list"
  out_motion_parameters :: "cell list list"
  out_repetition_time :: rat
  out_contrast_names :: "string list"

definition list_outputs_run ::
  "(table \<Rightarrow> string \<Rightarrow> error + table) \<Rightarrow> (nat \<Rightarrow> nat \<Rightarrow> rat list) \<Rightarrow> level_model \<Rightarrow> int option \<Rightarrow> table \<Rightarrow> (string \<times> rat) list
     \<Rightarrow> table \<Rightarrow> entities \<Rightarrow> error + run_outputs" where
  "list_outputs_run query legendre model detrend_poly regressor_file run_metadata events_file entities0 =
     (case get_motion_parameters regressor_file of
        Inl e \<Rightarrow> Inl e
      | Inr motion \<Rightarrow>
     (case map_of run_metadata ''RepetitionTime'' of
        None \<Rightarrow> Inl KeyError
      | Some tr \<Rightarrow>
     (case get_model_info query model events_file regressor_file of
        Inl e \<Rightarrow> Inl e
      | Inr (ri, event_regressors, confound_regressors) \<Rightarrow>
     (case get_contrasts model event_regressors of
        Inl e \<Rightarrow> Inl e
      | Inr (specs, names) \<Rightarrow>
          (let all_regressors = event_regressors @ confound_regressors;
               n_vols = nrows regressor_file;
               ents = AList.update ''DegreesOfFreedom''
                        (I (int n_vols - int (length all_regressors)))
                        (AList.update ''Volumes'' (I (int n_vols)) entities0);
               (cents, ents') = get_entities specs ents;
               ri' = (if detrend_poly \<noteq> None \<and> detrend_poly \<noteq> Some 0 then
                        (let (polynomial_names, polynomial_arrays) =
                               detrend_polynomial legendre n_vols (the detrend_poly)
                         in ri\<lparr>regressor_names := regressor_names ri @ polynomial_names,
                               regressors := regressors ri @ polynomial_arrays\<rparr>)
                      else ri)
           in Inr \<lparr>out_run_info = ri', out_run_contrasts = specs, out_run_entities = ents',
                   out_contrast_entities = cents, out_motion_parameters = motion,
                   out_repetition_time = tr, out_contrast_names = names\<rparr>)))))"

section \<open>GenerateHigherInfo: the higher-level aggregator\<close>

subsection \<open>Volumes\<close>

text \<open>
  A volumetric image: the shape of its array, the voxel values in storage order (first
  axis fastest, as NIfTI stores them) and the affine.  Voxel values are floats, modelled
  by their exact rational value.
\<close>

record img =
  shape :: "nat list"
  dataobj :: "rat list"
  affine :: "rat list"

text \<open>
  \<open>nibabel.concat_images(images)\<close> with its defaults: an empty list, a shape that differs
  from the first image's and an affine that differs from the first image's are each a
  \<open>ValueError\<close>; otherwise the images are stacked along a new last axis, which in storage
  order is the concatenation of their voxels, under the first image's affine.
\<close>

definition concat_images :: "img list \<Rightarrow> error + img" where
  "concat_images images =
     (case images of
        [] \<Rightarrow> Inl ValueError
      | img0 # _ \<Rightarrow>
          if list_all (\<lambda>i. shape i = shape img0 \<and> affine i = affine img0) images
          then Inr \<lparr>shape = shape img0 @ [length images],
                   dataobj = concat (map dataobj images),
                   affine = affine img0\<rparr>
          else Inl ValueError)"

text \<open>
  \<open>Nifti1Image(np.ones_like(open_file.get_fdata()) * dof, affine)\<close>: every voxel of the
  image's grid holds the run's degrees of freedom.  A text in place of the number makes
  the product a \<open>TypeError\<close>.
\<close>

definition dof_image :: "img \<Rightarrow> val \<Rightarrow> error + img" where
  "dof_image open_file dof =
     (case dof of
        I d \<Rightarrow> Inr \<lparr>shape = shape open_file,
                    dataobj = map (\<lambda>_. 1 * of_int d) (dataobj open_file),
                    affine = affine open_file\<rparr>
      | S _ \<Rightarrow> Inl TypeError)"

subsection \<open>The environment of an invocation\<close>

text \<open>
  What the interface takes from outside this module: \<open>nb_load\<close> reads a volume from a
  path, \<open>build_path\<close> is the dataset library's path templating (\<open>None\<close> when the entities
  do not fill the pattern, and then \<open>Path / None\<close> is a \<open>TypeError\<close>), \<open>snake_to_camel\<close>
  is the package's own helper from \<open>funcworks.utils\<close>, \<open>cwd\<close> is \<open>Path.cwd()\<close>.
\<close>

record env =
  nb_load :: "string \<Rightarrow> error + img"
  build_path :: "entities \<Rightarrow> string \<Rightarrow> string option"
  snake_to_camel :: "val \<Rightarrow> error + val"
  cwd :: string

definition path_join :: "string \<Rightarrow> string \<Rightarrow> string" where
  "path_join base rel = base @ ''/'' @ rel"

subsection \<open>\<open>_get_organization\<close>\<close>

record bids_info =
  File :: string
  Metadata :: entities

type_synonym organization = "(val \<times> bids_info list) list"

fun organize :: "(string \<times> entities) list \<Rightarrow> organization \<Rightarrow> error + organization" where
  "organize [] organization = Inr organization"
| "organize ((contrast_file, contrast_entities) # rest) organization =
     (case map_of contrast_entities ''contrast'' of
        None \<Rightarrow> Inl KeyError
      | Some c \<Rightarrow>
          (let organization' =
                 (if map_of organization c = None then AList.update c [] organization
                  else organization);
               bucket = (case map_of organization' c of None \<Rightarrow> [] | Some b \<Rightarrow> b)
           in organize rest
                (AList.update c
                   (bucket @ [\<lparr>File = contrast_file, Metadata = contrast_entities\<rparr>])
                   organization')))"

definition get_organization ::
  "level_model \<Rightarrow> string list \<Rightarrow> entities list \<Rightarrow> error + (organization \<times> val list)" where
  "get_organization model contrast_maps contrast_metadata =
     (case organize (zip contrast_maps contrast_metadata) [] of
        Inl e \<Rightarrow> Inl e
      | Inr organization \<Rightarrow>
          Inr (organization,
               (case DummyContrasts model of
                  None \<Rightarrow> []
                | Some (Some conds) \<Rightarrow> map S conds
                | Some None \<Rightarrow> map fst organization)))"

subsection \<open>\<open>_merge_maps\<close>\<close>

record dcontrast_info =
  dceffect_maps :: "img list"
  dcvariance_maps :: "img list"
  dcdof_maps :: "img list"
  dcentities :: entities

definition dcontrast_info0 :: dcontrast_info where
  "dcontrast_info0 = \<lparr>dceffect_maps = [], dcvariance_maps = [], dcdof_maps = [],
                       dcentities = []\<rparr>"

text \<open>The loop over the entries of one bucket, \<open>organization[dcontrast]\<close>.\<close>

fun scan_bucket ::
  "env \<Rightarrow> bids_info list \<Rightarrow> dcontrast_info \<Rightarrow> error + dcontrast_info" where
  "scan_bucket E [] info = Inr info"
| "scan_bucket E (b # rest) info =
     (case map_of (Metadata b) ''stat'' of
        None \<Rightarrow> scan_bucket E rest info
      | Some stat \<Rightarrow>
          if stat = S ''effect'' then
            (case nb_load E (File b) of
               Inl e \<Rightarrow> Inl e
             | Inr open_file \<Rightarrow>
                 (case map_of (Metadata b) ''DegreesOfFreedom'' of
                    None \<Rightarrow> Inl KeyError
                  | Some dof \<Rightarrow>
                      (case dof_image open_file dof of
                         Inl e \<Rightarrow> Inl e
                       | Inr dof_file \<Rightarrow>
                           scan_bucket E rest
                             (info\<lparr>dceffect_maps := dceffect_maps info @ [open_file],
                                   dcdof_maps := dcdof_maps info @ [dof_file],
                                   dcentities := Metadata b\<rparr>))))
          else if stat = S ''variance'' then
            (case nb_load E (File b) of
               Inl e \<Rightarrow> Inl e
             | Inr open_file \<Rightarrow>
                 scan_bucket E rest
                   (info\<lparr>dcvariance_maps := dcvariance_maps info @ [open_file],
                         dcentities := Metadata b\<rparr>))
          else scan_bucket E rest (info\<lparr>dcentities := Metadata b\<rparr>))"

text \<open>
  The first half of the body of the loop over \<open>dummy_contrasts\<close>: scan the bucket,
  concatenate the effect, variance and DOF lists in this order, record
  \<open>NumLevelTimepoints\<close> from the last axis of the merged effect volume, drop \<open>stat\<close>.
  The result is the merged entities and the three merged volumes.
\<close>

definition merge_bucket ::
  "env \<Rightarrow> bids_info list \<Rightarrow> error + (entities \<times> img \<times> img \<times> img)" where
  "merge_bucket E bucket =
     (case scan_bucket E bucket dcontrast_info0 of
        Inl e \<Rightarrow> Inl e
      | Inr info \<Rightarrow>
     (case concat_images (dceffect_maps info) of
        Inl e \<Rightarrow> Inl e
      | Inr dceffect \<Rightarrow>
     (case concat_images (dcvariance_maps info) of
        Inl e \<Rightarrow> Inl e
      | Inr dcvariance \<Rightarrow>
     (case concat_images (dcdof_maps info) of
        Inl e \<Rightarrow> Inl e
      | Inr dcdof \<Rightarrow>
          Inr (AList.delete ''stat''
                 (AList.update ''NumLevelTimepoints'' (I (int (last (shape dceffect))))
                    (dcentities info)),
               dceffect, dcvariance, dcdof)))))"

text \<open>
  \<open>saved\<close> is the sequence of \<open>nb.nifti1.save(volume, path)\<close> calls, in order; the other
  fields are the lists of \<open>maps_info\<close>.
\<close>

record maps_info =
  effect_maps :: "string list"
  dof_maps :: "string list"
  variance_maps :: "string list"
  map_entities :: "entities list"
  mask_files :: "string list"
  saved :: "(string \<times> img) list"

definition maps_info0 :: maps_info where
  "maps_info0 = \<lparr>effect_maps = [], dof_maps = [], variance_maps = [], map_entities = [],
                  mask_files = [], saved = []\<rparr>"

definition merged_patt :: string where
  "merged_patt = ''sub-{subject}[_ses-{session}]_contrast-{contrast}_stat-{stat}_desc-merged_statmap.nii.gz''"

definition mask_patt :: string where
  "mask_patt = ''sub-{subject}[_ses-{session}]_task-{task}_run-{run}[_space-{space}]_desc-brain_mask.nii.gz''"

definition add_map :: "string \<Rightarrow> string \<Rightarrow> maps_info \<Rightarrow> maps_info" where
  "add_map stat map_path mi =
     (if stat = ''effect'' then mi\<lparr>effect_maps := effect_maps mi @ [map_path]\<rparr>
      else if stat = ''variance'' then mi\<lparr>variance_maps := variance_maps mi @ [map_path]\<rparr>
      else mi\<lparr>dof_maps := dof_maps mi @ [map_path]\<rparr>)"

text \<open>The loop \<open>for stat in ['effect', 'variance', 'dof']\<close>, each with its merged volume.\<close>

fun save_stats ::
  "env \<Rightarrow> (string \<times> img) list \<Rightarrow> entities \<Rightarrow> maps_info \<Rightarrow> error + (entities \<times> maps_info)" where
  "save_stats E [] ents mi = Inr (ents, mi)"
| "save_stats E ((stat, volume) # rest) ents mi =
     (let ents' = AList.update ''stat'' (S stat) ents
      in (case build_path E ents' merged_patt of
            None \<Rightarrow> Inl TypeError
          | Some rel \<Rightarrow>
              (let map_path = path_join (cwd E) rel
               in save_stats E rest ents'
                    (add_map stat map_path (mi\<lparr>saved := saved mi @ [(map_path, volume)]\<rparr>)))))"

fun merge_maps_loop ::
  "env \<Rightarrow> organization \<Rightarrow> string \<Rightarrow> int option \<Rightarrow> val list \<Rightarrow> maps_info
     \<Rightarrow> error + maps_info" where
  "merge_maps_loop E organization derivatives align_volumes [] mi = Inr mi"
| "merge_maps_loop E organization derivatives align_volumes (dcontrast # rest) mi =
     (case map_of organization dcontrast of
        None \<Rightarrow> Inl KeyError
      | Some bucket \<Rightarrow>
     (case merge_bucket E bucket of
        Inl e \<Rightarrow> Inl e
      | Inr (dcents, dceffect, dcvariance, dcdof) \<Rightarrow>
     (case map_of dcents ''contrast'' of
        None \<Rightarrow> Inl KeyError
      | Some c \<Rightarrow>
     (case snake_to_camel E c of
        Inl e \<Rightarrow> Inl e
      | Inr camel \<Rightarrow>
     (case save_stats E [(''effect'', dceffect), (''variance'', dcvariance), (''dof'', dcdof)]
             (AList.update ''contrast'' camel (AList.delete ''run'' dcents))
             (mi\<lparr>map_entities := map_entities mi @ [dcents]\<rparr>) of
        Inl e \<Rightarrow> Inl e
      | Inr (ents, mi') \<Rightarrow>
          (let ents' = (if align_volumes = None \<or> align_volumes = Some 0
                        then AList.update ''run'' (I 1) ents
                        else AList.update ''run'' (I (the align_volumes)) ents)
           in (case build_path E ents' mask_patt of
                 None \<Rightarrow> Inl TypeError
               | Some rel \<Rightarrow>
                   merge_maps_loop E organization derivatives align_volumes rest
                     (mi'\<lparr>mask_files := mask_files mi' @ [path_join derivatives rel]\<rparr>))))))))"

definition merge_maps ::
  "env \<Rightarrow> organization \<Rightarrow> val list \<Rightarrow> string \<Rightarrow> int option \<Rightarrow> error + maps_info" where
  "merge_maps E organization dummy_contrasts derivatives align_volumes =
     merge_maps_loop E organization derivatives align_volumes dummy_contrasts maps_info0"

subsection \<open>\<open>_produce_matrices\<close>\<close>

datatype matrix_type = Design | Contrast | Covariance

text \<open>The entries of \<open>header_lines\<close> after \<open>str.format\<close> has filled in the two names.\<close>

definition header_lines :: "matrix_type \<Rightarrow> string \<Rightarrow> string \<Rightarrow> string list" where
  "header_lines matrix_type contrast numcopes =
     (case matrix_type of
        Contrast \<Rightarrow> [''/ContrastName1 '' @ contrast @ [nl],
                     ''/NumWaves 1'' @ [nl],
                     ''/NumPoints 1'' @ [nl, nl],
                     ''/Matrix'' @ [nl],
                     ''1'' @ [nl]]
      | Design \<Rightarrow> [''/NumWaves 1'' @ [nl],
                   ''/NumPoints '' @ numcopes @ [nl],
                   ''/PPHeights 1'' @ [nl, nl],
                   ''/Matrix'' @ [nl]]
      | Covariance \<Rightarrow> [''/NumWaves 1'' @ [nl],
                       ''/NumPoints '' @ numcopes @ [nl, nl],
                       ''/Matrix'' @ [nl]])"

text \<open>
  Everything one pass of the loop over the matrix types writes to the open file: the
  header lines and, for the covariance type only, \<open>range(numcopes)\<close> lines \<open>1\<close>.
  \<open>range\<close> of a text is a \<open>TypeError\<close>, of a negative number empty.
\<close>

definition matrix_text :: "matrix_type \<Rightarrow> val \<Rightarrow> val \<Rightarrow> error + string" where
  "matrix_text matrix_type contrast numcopes =
     (let header = concat (header_lines matrix_type (str_val contrast) (str_val numcopes))
      in if matrix_type = Covariance then
           (case numcopes of
              I k \<Rightarrow> Inr (header @ concat (replicate (nat k) (''1'' @ [nl])))
            | S _ \<Rightarrow> Inl TypeError)
         else Inr header)"

text \<open>
  Text files of the working directory: path and content.  \<open>open(path, 'a')\<close> creates the
  file when it is missing and writes at its end otherwise.
\<close>

type_synonym files = "(string \<times> string) list"

definition append_file :: "string \<Rightarrow> string \<Rightarrow> files \<Rightarrow> files" where
  "append_file path text fs =
     AList.update path ((case map_of fs path of None \<Rightarrow> [] | Some old \<Rightarrow> old) @ text) fs"

record matrix_paths =
  design_matrices :: "string list"
  contrast_matrices :: "string list"
  covariance_matrices :: "string list"

definition matrix_paths0 :: matrix_paths where
  "matrix_paths0 = \<lparr>design_matrices = [], contrast_matrices = [], covariance_matrices = []\<rparr>"

definition matrix_patt :: string where
  "matrix_patt = ''sub-{subject}[ses-{session}_]contrast-{contrast}_desc-{desc}_design.mat''"

definition add_matrix :: "matrix_type \<Rightarrow> string \<Rightarrow> matrix_paths \<Rightarrow> matrix_paths" where
  "add_matrix matrix_type matrix_path mp =
     (case matrix_type of
        Design \<Rightarrow> mp\<lparr>design_matrices := design_matrices mp @ [matrix_path]\<rparr>
      | Contrast \<Rightarrow> mp\<lparr>contrast_matrices := contrast_matrices mp @ [matrix_path]\<rparr>
      | Covariance \<Rightarrow> mp\<lparr>covariance_matrices := covariance_matrices mp @ [matrix_path]\<rparr>)"

text \<open>
  The loop over the matrix types for one entity.  \<open>ents\<close> is carried from one type to
  the next: the path is built before \<open>ents['contrast']\<close> is overwritten by the
  camel-cased name, and \<open>desc\<close> is set to \<open>contrast\<close> for every type.
\<close>

fun matrix_type_loop ::
  "env \<Rightarrow> entities \<Rightarrow> val \<Rightarrow> matrix_type list \<Rightarrow> entities \<Rightarrow> matrix_paths \<times> files
     \<Rightarrow> error + (matrix_paths \<times> files)" where
  "matrix_type_loop E entity numcopes [] ents acc = Inr acc"
| "matrix_type_loop E entity numcopes (matrix_type # rest) ents (mp, fs) =
     (let ents1 = AList.update ''desc'' (S ''contrast'') ents
      in (case build_path E ents1 matrix_patt of
            None \<Rightarrow> Inl TypeError
          | Some rel \<Rightarrow>
         (case map_of ents1 ''contrast'' of
            None \<Rightarrow> Inl KeyError
          | Some contrast \<Rightarrow>
         (case map_of entity ''contrast'' of
            None \<Rightarrow> Inl KeyError
          | Some c \<Rightarrow>
         (case snake_to_camel E c of
            Inl e \<Rightarrow> Inl e
          | Inr camel \<Rightarrow>
         (case matrix_text matrix_type contrast numcopes of
            Inl e \<Rightarrow> Inl e
          | Inr text \<Rightarrow>
              (let matrix_path = path_join (cwd E) rel
               in matrix_type_loop E entity numcopes rest
                    (AList.update ''contrast'' camel ents1)
                    (add_matrix matrix_type matrix_path mp,
                     append_file matrix_path text fs))))))))"

fun produce_matrices_loop ::
  "env \<Rightarrow> entities list \<Rightarrow> matrix_paths \<times> files \<Rightarrow> error + (matrix_paths \<times> files)" where
  "produce_matrices_loop E [] acc = Inr acc"
| "produce_matrices_loop E (entity # rest) acc =
     (case map_of entity ''NumLevelTimepoints'' of
        None \<Rightarrow> Inl KeyError
      | Some numcopes \<Rightarrow>
          (case matrix_type_loop E entity numcopes [Design, Contrast, Covariance] entity acc of
             Inl e \<Rightarrow> Inl e
           | Inr acc' \<Rightarrow> produce_matrices_loop E rest acc'))"

text \<open>
  \<open>_produce_matrices\<close> returns the three path lists; the files of the working directory
  before the call are an argument and the files after it part of the result.
\<close>

definition produce_matrices ::
  "env \<Rightarrow> entities list \<Rightarrow> files \<Rightarrow> error + (matrix_paths \<times> files)" where
  "produce_matrices E contrast_entities fs =
     produce_matrices_loop E contrast_entities (matrix_paths0, fs)"

subsection \<open>\<open>GenerateHigherInfo._list_outputs\<close>\<close>

record higher_outputs =
  out_effect_maps :: "string list"
  out_variance_maps :: "string list"
  out_dof_maps :: "string list"
  out_contrast_metadata :: "entities list"
  out_contrast_matrices :: "string list"
  out_design_matrices :: "string list"
  out_covariance_matrices :: "string list"
  out_brain_mask :: "string list"
  out_saved :: "(string \<times> img) list"

definition list_outputs_higher ::
  "env \<Rightarrow> level_model \<Rightarrow> string list \<Rightarrow> entities list \<Rightarrow> string \<Rightarrow> int option \<Rightarrow> files
     \<Rightarrow> error + (higher_outputs \<times> files)" where
  "list_outputs_higher E model contrast_maps contrast_metadata derivatives align_volumes fs =
     (case get_organization model contrast_maps contrast_metadata of
        Inl e \<Rightarrow> Inl e
      | Inr (organization, dummy_contrasts) \<Rightarrow>
     (case merge_maps E organization dummy_contrasts derivatives align_volumes of
        Inl e \<Rightarrow> Inl e
      | Inr mi \<Rightarrow>
     (case produce_matrices E (map_entities mi) fs of
        Inl e \<Rightarrow> Inl e
      | Inr (mp, fs') \<Rightarrow>
          Inr (\<lparr>out_effect_maps = effect_maps mi,
                out_variance_maps = variance_maps mi,
                out_dof_maps = dof_maps mi,
                out_contrast_metadata = map_entities mi,
                out_contrast_matrices = contrast_matrices mp,
                out_design_matrices = design_matrices mp,
                out_covariance_matrices = covariance_matrices mp,
                out_brain_mask = mask_files mi,
                out_saved = saved mi\<rparr>, fs'))))"

subsection \<open>What one merged contrast group leaves behind\<close>

text \<open>
  For one pass of the loop over \<open>dummy_contrasts\<close>: the merged entities appended to
  \<open>map_entities\<close> and the three saved volumes, each with the path it was saved under.
\<close>

record merged_group =
  mg_entities :: entities
  mg_effect :: "string \<times> img"
  mg_variance :: "string \<times> img"
  mg_dof :: "string \<times> img"

section \<open>Example inputs\<close>

text \<open>
  A run with three events (two of type \<open>A\<close>, one of type \<open>C\<close>, none of type \<open>B\<close>), a
  confound table of eight volumes holding the six motion columns, and a model whose
  predictors are two event types and one confound.
\<close>

definition ex_events :: table where
  "ex_events = \<lparr>nrows = 3,
     cols = [(''onset'', [Num 0, Num 2, Num 4]),
             (''duration'', [Num 1, Num 1, Num 1]),
             (''trial_type'', [Str ''A'', Str ''A'', Str ''C''])]\<rparr>"

definition ex_confounds :: table where
  "ex_confounds = \<lparr>nrows = 8,
     cols = [(''rot_x'', replicate 8 (Num 0)), (''rot_y'', replicate 8 (Num 0)),
             (''rot_z'', replicate 8 (Num 0)), (''trans_x'', replicate 8 (Num 0)),
             (''trans_y'', replicate 8 (Num 0)), (''trans_z'', replicate 8 NaN)]\<rparr>"

text \<open>An evaluator for the other query expressions that rejects each of them.\<close>

definition ex_query :: "table \<Rightarrow> string \<Rightarrow> error + table" where
  "ex_query t expr = Inl SyntaxError"

definition ex_model :: level_model where
  "ex_model = \<lparr>model_X = Some [''trial_type.A'', ''trial_type.B'', ''rot_x''],
                Contrasts = Some [],
                DummyContrasts = Some None\<rparr>"

text \<open>
  An environment for the aggregator.  Four volumes of two voxels are on disk.  The
  example \<open>build_path\<close> fills the three patterns the aggregator uses, with their optional
  session and space segments, and gives \<open>None\<close> when a required entity is missing.  The
  example \<open>snake_to_camel\<close> drops each underscore and capitalises the letter after it.
\<close>

definition ex_volumes :: "(string \<times> img) list" where
  "ex_volumes =
     [(''run1_effect.nii.gz'', \<lparr>shape = [2, 1, 1], dataobj = [3, 4], affine = [1]\<rparr>),
      (''run1_variance.nii.gz'', \<lparr>shape = [2, 1, 1], dataobj = [1, 1], affine = [1]\<rparr>),
      (''run2_effect.nii.gz'', \<lparr>shape = [2, 1, 1], dataobj = [5, 6], affine = [1]\<rparr>),
      (''run2_variance.nii.gz'', \<lparr>shape = [2, 1, 1], dataobj = [2, 2], affine = [1]\<rparr>)]"

definition seg :: "entities \<Rightarrow> string \<Rightarrow> string \<Rightarrow> string \<Rightarrow> string" where
  "seg ents pre key post = (case map_of ents key of None \<Rightarrow> [] | Some v \<Rightarrow> pre @ str_val v @ post)"

definition ex_build_path :: "entities \<Rightarrow> string \<Rightarrow> string option" where
  "ex_build_path ents patt =
     (if patt = matrix_patt then
        (if list_all (\<lambda>k. map_of ents k \<noteq> None) [''subject'', ''contrast'', ''desc'']
         then Some (seg ents ''sub-'' ''subject'' [] @ seg ents ''ses-'' ''session'' ''_''
                    @ seg ents ''contrast-'' ''contrast'' [] @ seg ents ''_desc-'' ''desc'' []
                    @ ''_design.mat'')
         else None)
      else if patt = merged_patt then
        (if list_all (\<lambda>k. map_of ents k \<noteq> None) [''subject'', ''contrast'', ''stat'']
         then Some (seg ents ''sub-'' ''subject'' [] @ seg ents ''_ses-'' ''session'' []
                    @ seg ents ''_contrast-'' ''contrast'' [] @ seg ents ''_stat-'' ''stat'' []
                    @ ''_desc-merged_statmap.nii.gz'')
         else None)
      else if patt = mask_patt then
        (if list_all (\<lambda>k. map_of ents k \<noteq> None) [''subject'', ''task'', ''run'']
         then Some (seg ents ''sub-'' ''subject'' [] @ seg ents ''_ses-'' ''session'' []
                    @ seg ents ''_task-'' ''task'' [] @ seg ents ''_run-'' ''run'' []
                    @ seg ents ''_space-'' ''space'' [] @ ''_desc-brain_mask.nii.gz'')
         else None)
      else None)"

fun camel :: "string \<Rightarrow> string" where
  "camel [] = []"
| "camel [c] = (if c = CHR ''_'' then [] else [c])"
| "camel (c # d # cs) = (if c = CHR ''_'' then upper_char d # camel cs else c # camel (d # cs))"

definition ex_snake_to_camel :: "val \<Rightarrow> error + val" where
  "ex_snake_to_camel v = (case v of S s \<Rightarrow> Inr (S (camel s)) | I _ \<Rightarrow> Inl AttributeError)"

definition ex_env :: env where
  "ex_env = \<lparr>nb_load = (\<lambda>p. case map_of ex_volumes p of
                                None \<Rightarrow> Inl FileNotFoundError
                              | Some im \<Rightarrow> Inr im),
             build_path = ex_build_path,
             snake_to_camel = ex_snake_to_camel,
             cwd = ''/work''\<rparr>"

text \<open>
  The statistical maps of two runs for the contrast \<open>go_stop\<close>, with the entities the
  run level gives them, and a model step that asks for dummy contrasts without listing
  conditions.
\<close>

definition ex_meta :: "string \<Rightarrow> int \<Rightarrow> string \<Rightarrow> entities" where
  "ex_meta run dof stat =
     [(''subject'', S ''01''), (''task'', S ''stopsignal''), (''run'', S run),
      (''Volumes'', I 8), (''DegreesOfFreedom'', I dof), (''contrast'', S ''go_stop''),
      (''stat'', S stat)]"

definition ex_maps :: "string list" where
  "ex_maps = [''run1_effect.nii.gz'', ''run1_variance.nii.gz'',
              ''run2_effect.nii.gz'', ''run2_variance.nii.gz'']"

definition ex_metadata :: "entities list" where
  "ex_metadata = [ex_meta ''01'' 6 ''effect'', ex_meta ''01'' 6 ''variance'',
                  ex_meta ''02'' 5 ''effect'', ex_meta ''02'' 5 ''variance'']"

definition ex_step :: level_model where
  "ex_step = \<lparr>model_X = None, Contrasts = None, DummyContrasts = Some None\<rparr>"

text \<open>
  What the aggregator returns for these inputs in an empty working directory: the paths,
  the merged entities, the saved volumes, and the two text files it leaves.
\<close>

definition ex_design_path :: string where
  "ex_design_path = ''/work/sub-01contrast-go_stop_desc-contrast_design.mat''"

definition ex_contrast_path :: string where
  "ex_contrast_path = ''/work/sub-01contrast-goStop_desc-contrast_design.mat''"

definition ex_design_text :: string where
  "ex_design_text = unlines [''/NumWaves 1'', ''/NumPoints 2'', ''/PPHeights 1'', [], ''/Matrix'']"

definition ex_contrast_text :: string where
  "ex_contrast_text =
     unlines [''/ContrastName1 goStop'', ''/NumWaves 1'', ''/NumPoints 1'', [], ''/Matrix'', ''1'']"

definition ex_covariance_text :: string where
  "ex_covariance_text = unlines [''/NumWaves 1'', ''/NumPoints 2'', [], ''/Matrix'', ''1'', ''1'']"

definition ex_files :: files where
  "ex_files = [(ex_design_path, ex_design_text),
               (ex_contrast_path, ex_contrast_text @ ex_covariance_text)]"

definition ex_out :: higher_outputs where
  "ex_out =
     \<lparr>out_effect_maps = [''/work/sub-01_contrast-goStop_stat-effect_desc-merged_statmap.nii.gz''],
      out_variance_maps = [''/work/sub-01_contrast-goStop_stat-variance_desc-merged_statmap.nii.gz''],
      out_dof_maps = [''/work/sub-01_contrast-goStop_stat-dof_desc-merged_statmap.nii.gz''],
      out_contrast_metadata =
        [[(''subject'', S ''01''), (''task'', S ''stopsignal''), (''run'', S ''02''),
          (''Volumes'', I 8), (''DegreesOfFreedom'', I 5), (''contrast'', S ''go_stop''),
          (''NumLevelTimepoints'', I 2)]],
      out_contrast_matrices = [ex_contrast_path],
      out_design_matrices = [ex_design_path],
      out_covariance_matrices = [ex_contrast_path],
      out_brain_mask = [''/deriv/sub-01_task-stopsignal_run-1_desc-brain_mask.nii.gz''],
      out_saved =
        [(''/work/sub-01_contrast-goStop_stat-effect_desc-merged_statmap.nii.gz'',
          \<lparr>shape = [2, 1, 1, 2], dataobj = [3, 4, 5, 6], affine = [1]\<rparr>),
         (''/work/sub-01_contrast-goStop_stat-variance_desc-merged_statmap.nii.gz'',
          \<lparr>shape = [2, 1, 1, 2], dataobj = [1, 1, 2, 2], affine = [1]\<rparr>),
         (''/work/sub-01_contrast-goStop_stat-dof_desc-merged_statmap.nii.gz'',
          \<lparr>shape = [2, 1, 1, 2], dataobj = [6, 6, 5, 5], affine = [1]\<rparr>)]\<rparr>"

text \<open>
  A second input for the aggregator: one run with the contrasts \<open>stop\<close> and \<open>go\<close>, given
  in the order stop effect, go effect, a z-score map of \<open>go\<close> (a statistic that is
  neither effect nor variance, and here labelled with another run), go variance, stop
  variance; and a model step whose \<open>DummyContrasts\<close> lists the condition \<open>go\<close> only.
\<close>

definition ex2_volumes :: "(string \<times> img) list" where
  "ex2_volumes =
     [(''go_effect.nii.gz'', \<lparr>shape = [2, 1, 1], dataobj = [3, 4], affine = [1]\<rparr>),
      (''go_variance.nii.gz'', \<lparr>shape = [2, 1, 1], dataobj = [1, 1], affine = [1]\<rparr>),
      (''stop_effect.nii.gz'', \<lparr>shape = [2, 1, 1], dataobj = [5, 6], affine = [1]\<rparr>),
      (''stop_variance.nii.gz'', \<lparr>shape = [2, 1, 1], dataobj = [2, 2], affine = [1]\<rparr>)]"

definition ex2_env :: env where
  "ex2_env = \<lparr>nb_load = (\<lambda>p. case map_of ex2_volumes p of
                                 None \<Rightarrow> Inl FileNotFoundError
                               | Some im \<Rightarrow> Inr im),
              build_path = ex_build_path,
              snake_to_camel = ex_snake_to_camel,
              cwd = ''/work''\<rparr>"

definition ex2_meta :: "string \<Rightarrow> string \<Rightarrow> int \<Rightarrow> string \<Rightarrow> entities" where
  "ex2_meta contrast run dof stat =
     [(''subject'', S ''01''), (''task'', S ''stopsignal''), (''run'', S run),
      (''Volumes'', I 8), (''DegreesOfFreedom'', I dof), (''contrast'', S contrast),
      (''stat'', S stat)]"

definition ex2_maps :: "string list" where
  "ex2_maps = [''stop_effect.nii.gz'', ''go_effect.nii.gz'', ''go_zscore.nii.gz'',
               ''go_variance.nii.gz'', ''stop_variance.nii.gz'']"

definition ex2_metadata :: "entities list" where
  "ex2_metadata = [ex2_meta ''stop'' ''01'' 6 ''effect'', ex2_meta ''go'' ''01'' 6 ''effect'',
                   ex2_meta ''go'' ''02'' 4 ''zscore'', ex2_meta ''go'' ''01'' 6 ''variance'',
                   ex2_meta ''stop'' ''01'' 6 ''variance'']"

definition ex2_step :: level_model where
  "ex2_step = \<lparr>model_X = None, Contrasts = None, DummyContrasts = Some (Some [''go''])\<rparr>"

text \<open>
  A third input: the maps of the contrast \<open>go\<close> alone, with the z-score map, labelled
  with run \<open>02\<close>, given last.
\<close>

definition ex3_maps :: "string list" where
  "ex3_maps = [''go_effect.nii.gz'', ''go_variance.nii.gz'', ''go_zscore.nii.gz'']"

definition ex3_metadata :: "entities list" where
  "ex3_metadata = [ex2_meta ''go'' ''01'' 6 ''effect'', ex2_meta ''go'' ''01'' 6 ''variance'',
                   ex2_meta ''go'' ''02'' 4 ''zscore'']"

text \<open>
  What the aggregator returns for the second input in an empty working directory, with
  every bucket merged (\<open>ex2_out\<close>) and with the bucket \<open>go\<close> alone (\<open>ex2_go_out\<close>), and
  for the third input (\<open>ex3_out\<close>).  The example \<open>snake_to_camel\<close> leaves \<open>go\<close> and
  \<open>stop\<close> as they are, so each contrast has one matrix file.
\<close>

definition ex2_merged :: "string \<Rightarrow> string \<Rightarrow> string" where
  "ex2_merged c stat = ''/work/sub-01_contrast-'' @ c @ ''_stat-'' @ stat @ ''_desc-merged_statmap.nii.gz''"

definition ex2_matrix :: "string \<Rightarrow> string" where
  "ex2_matrix c = ''/work/sub-01contrast-'' @ c @ ''_desc-contrast_design.mat''"

definition ex2_text :: "string \<Rightarrow> string" where
  "ex2_text c =
     unlines [''/NumWaves 1'', ''/NumPoints 1'', ''/PPHeights 1'', [], ''/Matrix'']
     @ unlines [''/ContrastName1 '' @ c, ''/NumWaves 1'', ''/NumPoints 1'', [], ''/Matrix'', ''1'']
     @ unlines [''/NumWaves 1'', ''/NumPoints 1'', [], ''/Matrix'', ''1'']"

definition ex2_ents :: "string \<Rightarrow> string \<Rightarrow> int \<Rightarrow> entities" where
  "ex2_ents c run dof =
     [(''subject'', S ''01''), (''task'', S ''stopsignal''), (''run'', S run),
      (''Volumes'', I 8), (''DegreesOfFreedom'', I dof), (''contrast'', S c),
      (''NumLevelTimepoints'', I 1)]"

definition ex2_saved_go :: "(string \<times> img) list" where
  "ex2_saved_go =
     [(ex2_merged ''go'' ''effect'', \<lparr>shape = [2, 1, 1, 1], dataobj = [3, 4], affine = [1]\<rparr>),
      (ex2_merged ''go'' ''variance'', \<lparr>shape = [2, 1, 1, 1], dataobj = [1, 1], affine = [1]\<rparr>),
      (ex2_merged ''go'' ''dof'', \<lparr>shape = [2, 1, 1, 1], dataobj = [6, 6], affine = [1]\<rparr>)]"

definition ex2_saved_stop :: "(string \<times> img) list" where
  "ex2_saved_stop =
     [(ex2_merged ''stop'' ''effect'', \<lparr>shape = [2, 1, 1, 1], dataobj = [5, 6], affine = [1]\<rparr>),
      (ex2_merged ''stop'' ''variance'', \<lparr>shape = [2, 1, 1, 1], dataobj = [2, 2], affine = [1]\<rparr>),
      (ex2_merged ''stop'' ''dof'', \<lparr>shape = [2, 1, 1, 1], dataobj = [6, 6], affine = [1]\<rparr>)]"

definition ex2_out :: higher_outputs where
  "ex2_out =
     \<lparr>out_effect_maps = [ex2_merged ''stop'' ''effect'', ex2_merged ''go'' ''effect''],
      out_variance_maps = [ex2_merged ''stop'' ''variance'', ex2_merged ''go'' ''variance''],
      out_dof_maps = [ex2_merged ''stop'' ''dof'', ex2_merged ''go'' ''dof''],
      out_contrast_metadata = [ex2_ents ''stop'' ''01'' 6, ex2_ents ''go'' ''01'' 6],
      out_contrast_matrices = [ex2_matrix ''stop'', ex2_matrix ''go''],
      out_design_matrices = [ex2_matrix ''stop'', ex2_matrix ''go''],
      out_covariance_matrices = [ex2_matrix ''stop'', ex2_matrix ''go''],
      out_brain_mask = [''/deriv/sub-01_task-stopsignal_run-1_desc-brain_mask.nii.gz'',
                        ''/deriv/sub-01_task-stopsignal_run-1_desc-brain_mask.nii.gz''],
      out_saved = ex2_saved_stop @ ex2_saved_go\<rparr>"

definition ex2_files :: files where
  "ex2_files = [(ex2_matrix ''stop'', ex2_text ''stop''), (ex2_matrix ''go'', ex2_text ''go'')]"

definition ex2_go_out :: higher_outputs where
  "ex2_go_out =
     \<lparr>out_effect_maps = [ex2_merged ''go'' ''effect''],
      out_variance_maps = [ex2_merged ''go'' ''variance''],
      out_dof_maps = [ex2_merged ''go'' ''dof''],
      out_contrast_metadata = [ex2_ents ''go'' ''01'' 6],
      out_contrast_matrices = [ex2_matrix ''go''],
      out_design_matrices = [ex2_matrix ''go''],
      out_covariance_matrices = [ex2_matrix ''go''],
      out_brain_mask = [''/deriv/sub-01_task-stopsignal_run-1_desc-brain_mask.nii.gz''],
      out_saved = ex2_saved_go\<rparr>"

definition ex2_go_files :: files where
  "ex2_go_files = [(ex2_matrix ''go'', ex2_text ''go'')]"

definition ex3_out :: higher_outputs where
  "ex3_out = ex2_go_out\<lparr>out_contrast_metadata := [ex2_ents ''go'' ''02'' 4]\<rparr>"

section \<open>Properties of the run-level compiler\<close>

subsection \<open>The predictor loop\<close>



lemma query_eq_no_match:
  assumes "is_identifier c" "plain_text v" "column t c = Some cells" "is_text_column cells"
    "Str v \<notin> set cells"
  shows "\<exists>f. query_eq query t c v = Inr f \<and> empty_frame f"
proof -
  have "filter id (map (\<lambda>x. x = Str v) cells) = []"
    using assms(5) by (induction cells) auto
  then show ?thesis
    using assms(1-4) by (simp add: query_eq_def empty_frame_def)
qed





lemmas run_level_defs =
  list_outputs_run_def get_motion_parameters_def get_contrasts_def get_entities_def
  detrend_polynomial_def fmt_02d_def show_nat.simps upper_def upper_char_def
  get_model_info_def fillna0_def run_info0_def query_eq_def column_def empty_frame_def
  select_rows_def Let_def



subsection \<open>Contrasts\<close>

lemma real_loop_closed_form:
  assumes "event_names \<noteq> []"
  shows "real_loop event_names cs (sp, nm) =
     Inr (sp @ map (\<lambda>c. if c_Name c = ''task_vs_baseline''
                          then (c_Name c, upper (c_Type c), event_names,
                                replicate (length event_names) (1 / of_nat (length event_names)))
                          else (c_Name c, upper (c_Type c), c_ConditionList c, c_Weights c))
                   (filter (\<lambda>c. set event_names \<subseteq> set (c_ConditionList c)) cs),
          nm @ map c_Name (filter (\<lambda>c. set event_names \<subseteq> set (c_ConditionList c)) cs))"
  using assms by (induction cs arbitrary: sp nm) simp_all

lemma sum_equal_weights: "n \<noteq> 0 \<Longrightarrow> sum_list (replicate n (1 / of_nat n :: rat)) = 1"
  by (simp add: sum_list_replicate)

text \<open>
  Claim C1, at an input where the code and the claim part.  The run has the conditions
  \<open>trial_type.go\<close> and \<open>trial_type.stop\<close>.  The contrast \<open>go_only\<close> lists only
  \<open>trial_type.go\<close>, a subset of the run's conditions, and is skipped; the contrast
  \<open>go_vs_rest\<close> lists \<open>trial_type.rest\<close>, which the run lacks, and is emitted.  The loop
  tests whether the run's conditions are a subset of the contrast's list, not the
  converse.
\<close>

theorem C1_subset_test_at_failing_input:
  "get_contrasts
     \<lparr>model_X = Some [''trial_type.go'', ''trial_type.stop''],
      Contrasts = Some
        [\<lparr>c_Name = ''go_only'', c_Type = ''t'',
          c_ConditionList = [''trial_type.go''], c_Weights = [1]\<rparr>,
         \<lparr>c_Name = ''go_vs_rest'', c_Type = ''t'',
          c_ConditionList = [''trial_type.go'', ''trial_type.stop'', ''trial_type.rest''],
          c_Weights = [1, 0, -1]\<rparr>],
      DummyContrasts = Some (Some [])\<rparr>
     [''trial_type.go'', ''trial_type.stop'']
   = Inr ([(''go_vs_rest'', ''T'',
            [''trial_type.go'', ''trial_type.stop'', ''trial_type.rest''], [1, 0, -1])],
          [''go_vs_rest''])"
  by (simp add: get_contrasts_def upper_def upper_char_def)

text \<open>
  What \<open>_get_contrasts\<close> returns for a run with at least one condition, and a model that
  has the keys it reads: after the dummy contrasts come the explicit contrasts that pass
  the test of the loop, in the model's order, and each one named \<open>task_vs_baseline\<close>
  carries the run's whole condition list with one weight per condition, every weight
  the quotient of 1 by the number of conditions.  The weights add up to 1 (the quotient
  is exact here; the float's rounding is not modelled).
\<close>

lemma get_contrasts_closed_form:
  assumes "event_names \<noteq> []"
    and "Contrasts model = Some real_contrasts"
    and "DummyContrasts model = Some dc"
    and "(case dc of Some conds \<Rightarrow> Some conds | None \<Rightarrow> model_X model) = Some dummy_contrasts"
  shows "get_contrasts model event_names =
     Inr (fst (dummy_loop event_names dummy_contrasts ([], []))
            @ map (\<lambda>c. if c_Name c = ''task_vs_baseline''
                        then (c_Name c, upper (c_Type c), event_names,
                              replicate (length event_names) (1 / of_nat (length event_names)))
                        else (c_Name c, upper (c_Type c), c_ConditionList c, c_Weights c))
                (filter (\<lambda>c. set event_names \<subseteq> set (c_ConditionList c)) real_contrasts),
          snd (dummy_loop event_names dummy_contrasts ([], []))
            @ map c_Name (filter (\<lambda>c. set event_names \<subseteq> set (c_ConditionList c)) real_contrasts))
     \<and> sum_list (replicate (length event_names) (1 / of_nat (length event_names) :: rat)) = 1"
proof -
  obtain dsp dnm where d: "dummy_loop event_names dummy_contrasts ([], []) = (dsp, dnm)"
    by (cases "dummy_loop event_names dummy_contrasts ([], [])")
  have "get_contrasts model event_names = real_loop event_names real_contrasts (dsp, dnm)"
    using assms(2,3,4) d by (simp add: get_contrasts_def)
  moreover have "length event_names \<noteq> 0" using assms(1) by simp
  ultimately show ?thesis
    using real_loop_closed_form [OF assms(1)] sum_equal_weights d by simp
qed

text \<open>
  For a run without conditions the empty list is a subset of every condition list, so
  \<open>task_vs_baseline\<close> passes the test of the loop, and the weight \<open>1 / len(event_names)\<close>
  is a division by zero.
\<close>

lemma get_contrasts_no_conditions:
  "get_contrasts
     \<lparr>model_X = Some [''rot_x''],
      Contrasts = Some
        [\<lparr>c_Name = ''task_vs_baseline'', c_Type = ''t'',
          c_ConditionList = [''trial_type.go''], c_Weights = [1]\<rparr>],
      DummyContrasts = Some None\<rparr>
     []
   = Inl ZeroDivisionError"
  by (simp add: get_contrasts_def)

text \<open>
  Claim C7, at an input where the code and the claim part.  The run has the conditions
  \<open>trial_type.A\<close> and \<open>trial_type.B\<close>.  A contrast \<open>task_vs_baseline\<close> that lists only
  \<open>trial_type.A\<close> has its condition list within the run's conditions, so it survives
  the subset filter of the claim and should be emitted over both conditions with the
  weights 1/2 and 1/2; the loop skips it, because its test asks for the run's
  conditions to be within the contrast's list (the reversed test of claim C1).  When
  the contrast lists both conditions the two tests agree, and the contrast is emitted
  as the claim says, whatever its own weights.
\<close>

theorem C7_task_vs_baseline_at_failing_input:
  "set [''trial_type.A''] \<subseteq> set [''trial_type.A'', ''trial_type.B'']
   \<and> get_contrasts
       \<lparr>model_X = Some [''trial_type.A'', ''trial_type.B''],
        Contrasts = Some
          [\<lparr>c_Name = ''task_vs_baseline'', c_Type = ''t'',
            c_ConditionList = [''trial_type.A''], c_Weights = [1]\<rparr>],
        DummyContrasts = Some (Some [])\<rparr>
       [''trial_type.A'', ''trial_type.B'']
     = Inr ([], [])
   \<and> get_contrasts
       \<lparr>model_X = Some [''trial_type.A'', ''trial_type.B''],
        Contrasts = Some
          [\<lparr>c_Name = ''task_vs_baseline'', c_Type = ''t'',
            c_ConditionList = [''trial_type.A'', ''trial_type.B''], c_Weights = [3, 5]\<rparr>],
        DummyContrasts = Some (Some [])\<rparr>
       [''trial_type.A'', ''trial_type.B'']
     = Inr ([(''task_vs_baseline'', ''T'', [''trial_type.A'', ''trial_type.B''], [1 / 2, 1 / 2])],
            [''task_vs_baseline''])"
  by (simp add: get_contrasts_def upper_def upper_char_def)

subsection \<open>Degrees of freedom\<close>

lemma get_entities_loop_lookup:
  "get_entities_loop names ents acc = (cents, ents') \<Longrightarrow> k \<noteq> ''contrast'' \<Longrightarrow>
   map_of ents' k = map_of ents k"
  by (induction names arbitrary: ents acc) (auto simp: Let_def update_conv')

text \<open>
  What \<open>_list_outputs\<close> records, for every input on which it returns: the degrees of
  freedom are the volumes less the conditions and the confound regressors.  The
  regressor names of the returned run info also hold the detrend terms, which are
  therefore added back here; without detrending there is none.
\<close>

lemma list_outputs_run_degrees_of_freedom:
  assumes "list_outputs_run query legendre model detrend_poly conf md ev e0 = Inr out"
  shows "map_of (out_run_entities out) ''Volumes'' = Some (I (int (nrows conf)))
     \<and> map_of (out_run_entities out) ''DegreesOfFreedom''
         = Some (I (int (nrows conf)
                    - (int (length (conditions (out_run_info out)))
                       + int (length (regressor_names (out_run_info out)))
                       - int (if detrend_poly = None \<or> detrend_poly = Some 0 then 0
                              else nat (the detrend_poly + 1)))))"
proof -
  obtain ri cs rs where mi: "get_model_info query model ev conf = Inr (ri, cs, rs)"
    using assms by (auto simp: list_outputs_run_def split: sum.splits option.splits)
  have cs: "cs = conditions ri" and rs: "rs = regressor_names ri"
    using mi by (auto simp: get_model_info_def split: sum.splits option.splits)
  obtain specs names where gc: "get_contrasts model cs = Inr (specs, names)"
    using assms mi by (auto simp: list_outputs_run_def split: sum.splits option.splits)
  define ents where "ents = AList.update ''DegreesOfFreedom''
                        (I (int (nrows conf) - int (length (cs @ rs))))
                        (AList.update ''Volumes'' (I (int (nrows conf))) e0)"
  obtain cents ents' where ge: "get_entities specs ents = (cents, ents')"
    by (cases "get_entities specs ents")
  have keep: "map_of ents' k = map_of ents k" if "k \<noteq> ''contrast''" for k
    using ge that get_entities_loop_lookup unfolding get_entities_def by blast
  have oe: "out_run_entities out = ents'"
    using assms mi gc ge
    by (auto simp: list_outputs_run_def Let_def ents_def split: sum.splits option.splits)
  have oc: "conditions (out_run_info out) = cs"
    using assms mi gc ge
    by (auto simp: list_outputs_run_def Let_def ents_def detrend_polynomial_def cs
             split: sum.splits option.splits if_splits)
  have orn: "length (regressor_names (out_run_info out))
               = length rs + (if detrend_poly = None \<or> detrend_poly = Some 0 then 0
                              else nat (the detrend_poly + 1))"
    using assms mi gc ge
    by (auto simp: list_outputs_run_def Let_def ents_def detrend_polynomial_def rs
             split: sum.splits option.splits if_splits)
  have vol: "map_of ents' ''Volumes'' = Some (I (int (nrows conf)))"
    and dof: "map_of ents' ''DegreesOfFreedom''
                = Some (I (int (nrows conf) - int (length (cs @ rs))))"
    using keep by (simp_all add: ents_def update_conv')
  have len: "int (length (conditions (out_run_info out)))
               + int (length (regressor_names (out_run_info out)))
               - int (if detrend_poly = None \<or> detrend_poly = Some 0 then 0
                      else nat (the detrend_poly + 1))
             = int (length (cs @ rs))"
    unfolding oc orn by simp
  show ?thesis
    unfolding oe using vol dof len by simp
qed

text \<open>
  Claim C2, at an input where the code and the claim part.  The example run has 8
  volumes, one condition with events (\<open>trial_type.A\<close>), one confound regressor
  (\<open>rot_x\<close>) and, for \<open>detrend_poly = 2\<close>, three appended Legendre regressors:
  8 - (1 + 1 + 3) = 3.  The entities hold \<open>DegreesOfFreedom = 6\<close>: the count is taken
  before the detrend terms are appended.
\<close>

theorem C2_degrees_of_freedom_at_failing_input:
  "map_sum id
     (\<lambda>out. (map_of (out_run_entities out) ''Volumes'',
              map_of (out_run_entities out) ''DegreesOfFreedom'',
              conditions (out_run_info out),
              regressor_names (out_run_info out)))
     (list_outputs_run ex_query (\<lambda>i n. replicate n 0) ex_model (Some 2) ex_confounds
        [(''RepetitionTime'', 2)] ex_events [(''subject'', S ''01''), (''run'', S ''01'')])
   = Inr (Some (I 8), Some (I 6), [''trial_type.A''],
          [''rot_x'', ''legendre00'', ''legendre01'', ''legendre02''])"
  by code_simp

section \<open>Properties of the aggregator\<close>

subsection \<open>One bucket\<close>

lemma concat_images_Inr:
  assumes "concat_images xs = Inr r"
  shows "xs \<noteq> [] \<and> shape r = shape (hd xs) @ [length xs] \<and> last (shape r) = length xs
         \<and> dataobj r = concat (map dataobj xs) \<and> affine r = affine (hd xs)"
  using assms by (cases xs) (auto simp: concat_images_def split: if_splits)

lemma dof_image_Inr:
  assumes "dof_image im v = Inr r"
  shows "\<exists>d. v = I d \<and> r = \<lparr>shape = shape im, dataobj = replicate (length (dataobj im)) (of_int d),
                              affine = affine im\<rparr>"
  using assms by (cases v) (auto simp: dof_image_def map_replicate_const)

lemma scan_bucket_result:
  "scan_bucket E bucket info = Inr info' \<Longrightarrow>
   \<exists>runs vars.
     list_all2 (\<lambda>b (im, dof). nb_load E (File b) = Inr im
                   \<and> map_of (Metadata b) ''DegreesOfFreedom'' = Some (I dof))
       (filter (\<lambda>b. map_of (Metadata b) ''stat'' = Some (S ''effect'')) bucket) runs
   \<and> dceffect_maps info' = dceffect_maps info @ map fst runs
   \<and> dcdof_maps info' = dcdof_maps info
        @ map (\<lambda>(im, dof). \<lparr>shape = shape im,
                              dataobj = replicate (length (dataobj im)) (of_int dof),
                              affine = affine im\<rparr>) runs
   \<and> list_all2 (\<lambda>b im. nb_load E (File b) = Inr im)
       (filter (\<lambda>b. map_of (Metadata b) ''stat'' = Some (S ''variance'')) bucket) vars
   \<and> dcvariance_maps info' = dcvariance_maps info @ vars
   \<and> dcentities info' =
        (if filter (\<lambda>b. map_of (Metadata b) ''stat'' \<noteq> None) bucket = [] then dcentities info
         else Metadata (last (filter (\<lambda>b. map_of (Metadata b) ''stat'' \<noteq> None) bucket)))"
proof (induction bucket arbitrary: info)
  case Nil
  then show ?case by simp
next
  case (Cons b rest)
  show ?case
  proof (cases "map_of (Metadata b) ''stat''")
    case None
    then have "scan_bucket E rest info = Inr info'" using Cons.prems by simp
    from Cons.IH [OF this] obtain runs vars where R:
        "list_all2 (\<lambda>b (im, dof). nb_load E (File b) = Inr im
                   \<and> map_of (Metadata b) ''DegreesOfFreedom'' = Some (I dof))
           (filter (\<lambda>b. map_of (Metadata b) ''stat'' = Some (S ''effect'')) rest) runs"
        "dceffect_maps info' = dceffect_maps info @ map fst runs"
        "dcdof_maps info' = dcdof_maps info
           @ map (\<lambda>(im, dof). \<lparr>shape = shape im,
                              dataobj = replicate (length (dataobj im)) (of_int dof),
                              affine = affine im\<rparr>) runs"
        "list_all2 (\<lambda>b im. nb_load E (File b) = Inr im)
           (filter (\<lambda>b. map_of (Metadata b) ''stat'' = Some (S ''variance'')) rest) vars"
        "dcvariance_maps info' = dcvariance_maps info @ vars"
        "dcentities info' =
           (if filter (\<lambda>b. map_of (Metadata b) ''stat'' \<noteq> None) rest = [] then dcentities info
            else Metadata (last (filter (\<lambda>b. map_of (Metadata b) ''stat'' \<noteq> None) rest)))"
      by blast
    have f: "filter (\<lambda>b. map_of (Metadata b) ''stat'' \<noteq> None) (b # rest)
              = filter (\<lambda>b. map_of (Metadata b) ''stat'' \<noteq> None) rest"
      "filter (\<lambda>b. map_of (Metadata b) ''stat'' = Some (S ''effect'')) (b # rest)
              = filter (\<lambda>b. map_of (Metadata b) ''stat'' = Some (S ''effect'')) rest"
      "filter (\<lambda>b. map_of (Metadata b) ''stat'' = Some (S ''variance'')) (b # rest)
              = filter (\<lambda>b. map_of (Metadata b) ''stat'' = Some (S ''variance'')) rest"
      using None by simp_all
    show ?thesis
      unfolding f
      apply (rule exI [of _ runs])
      apply (rule exI [of _ vars])
      using R by blast
  next
    case (Some stat)
    consider (eff) "stat = S ''effect''" | (var) "stat = S ''variance''"
      | (other) "stat \<noteq> S ''effect''" "stat \<noteq> S ''variance''" by blast
    then show ?thesis
    proof cases
      case eff
      obtain im where im: "nb_load E (File b) = Inr im"
        using Cons.prems Some eff by (auto split: sum.splits)
      obtain dv where dv: "map_of (Metadata b) ''DegreesOfFreedom'' = Some dv"
        using Cons.prems Some eff im by (auto split: option.splits)
      obtain df where df: "dof_image im dv = Inr df"
        using Cons.prems Some eff im dv by (auto split: sum.splits)
      obtain d where d: "dv = I d"
        "df = \<lparr>shape = shape im, dataobj = replicate (length (dataobj im)) (of_int d), affine = affine im\<rparr>"
        using dof_image_Inr [OF df] by blast
      have "scan_bucket E rest (info\<lparr>dceffect_maps := dceffect_maps info @ [im],
               dcdof_maps := dcdof_maps info @ [df], dcentities := Metadata b\<rparr>) = Inr info'"
        using Cons.prems Some eff im dv df by simp
      from Cons.IH [OF this] obtain runs vars where R:
        "list_all2 (\<lambda>b (im, dof). nb_load E (File b) = Inr im
                   \<and> map_of (Metadata b) ''DegreesOfFreedom'' = Some (I dof))
           (filter (\<lambda>b. map_of (Metadata b) ''stat'' = Some (S ''effect'')) rest) runs"
        "dceffect_maps info' = (dceffect_maps info @ [im]) @ map fst runs"
        "dcdof_maps info' = (dcdof_maps info @ [df])
           @ map (\<lambda>(im, dof). \<lparr>shape = shape im,
                              dataobj = replicate (length (dataobj im)) (of_int dof),
                              affine = affine im\<rparr>) runs"
        "list_all2 (\<lambda>b im. nb_load E (File b) = Inr im)
           (filter (\<lambda>b. map_of (Metadata b) ''stat'' = Some (S ''variance'')) rest) vars"
        "dcvariance_maps info' = dcvariance_maps info @ vars"
        "dcentities info' =
           (if filter (\<lambda>b. map_of (Metadata b) ''stat'' \<noteq> None) rest = [] then Metadata b
            else Metadata (last (filter (\<lambda>b. map_of (Metadata b) ''stat'' \<noteq> None) rest)))"
        by auto
      show ?thesis
        apply (rule exI [of _ "(im, d) # runs"])
        apply (rule exI [of _ vars])
        using R Some eff im dv d by simp
    next
      case var
      obtain im where im: "nb_load E (File b) = Inr im"
        using Cons.prems Some var by (auto split: sum.splits)
      have "scan_bucket E rest (info\<lparr>dcvariance_maps := dcvariance_maps info @ [im],
               dcentities := Metadata b\<rparr>) = Inr info'"
        using Cons.prems Some var im by simp
      from Cons.IH [OF this] obtain runs vars where R:
        "list_all2 (\<lambda>b (im, dof). nb_load E (File b) = Inr im
                   \<and> map_of (Metadata b) ''DegreesOfFreedom'' = Some (I dof))
           (filter (\<lambda>b. map_of (Metadata b) ''stat'' = Some (S ''effect'')) rest) runs"
        "dceffect_maps info' = dceffect_maps info @ map fst runs"
        "dcdof_maps info' = dcdof_maps info
           @ map (\<lambda>(im, dof). \<lparr>shape = shape im,
                              dataobj = replicate (length (dataobj im)) (of_int dof),
                              affine = affine im\<rparr>) runs"
        "list_all2 (\<lambda>b im. nb_load E (File b) = Inr im)
           (filter (\<lambda>b. map_of (Metadata b) ''stat'' = Some (S ''variance'')) rest) vars"
        "dcvariance_maps info' = (dcvariance_maps info @ [im]) @ vars"
        "dcentities info' =
           (if filter (\<lambda>b. map_of (Metadata b) ''stat'' \<noteq> None) rest = [] then Metadata b
            else Metadata (last (filter (\<lambda>b. map_of (Metadata b) ''stat'' \<noteq> None) rest)))"
        by auto
      show ?thesis
        apply (rule exI [of _ runs])
        apply (rule exI [of _ "im # vars"])
        using R Some var im by simp
    next
      case other
      have "scan_bucket E rest (info\<lparr>dcentities := Metadata b\<rparr>) = Inr info'"
        using Cons.prems Some other by simp
      from Cons.IH [OF this] obtain runs vars where R:
        "list_all2 (\<lambda>b (im, dof). nb_load E (File b) = Inr im
                   \<and> map_of (Metadata b) ''DegreesOfFreedom'' = Some (I dof))
           (filter (\<lambda>b. map_of (Metadata b) ''stat'' = Some (S ''effect'')) rest) runs"
        "dceffect_maps info' = dceffect_maps info @ map fst runs"
        "dcdof_maps info' = dcdof_maps info
           @ map (\<lambda>(im, dof). \<lparr>shape = shape im,
                              dataobj = replicate (length (dataobj im)) (of_int dof),
                              affine = affine im\<rparr>) runs"
        "list_all2 (\<lambda>b im. nb_load E (File b) = Inr im)
           (filter (\<lambda>b. map_of (Metadata b) ''stat'' = Some (S ''variance'')) rest) vars"
        "dcvariance_maps info' = dcvariance_maps info @ vars"
        "dcentities info' =
           (if filter (\<lambda>b. map_of (Metadata b) ''stat'' \<noteq> None) rest = [] then Metadata b
            else Metadata (last (filter (\<lambda>b. map_of (Metadata b) ''stat'' \<noteq> None) rest)))"
        by auto
      show ?thesis
        apply (rule exI [of _ runs])
        apply (rule exI [of _ vars])
        using R Some other by simp
    qed
  qed
qed

lemma merge_bucket_result:
  assumes "merge_bucket E bucket = Inr (ents, dceffect, dcvariance, dcdof)"
  shows "\<exists>runs vars.
     list_all2 (\<lambda>b (im, dof). nb_load E (File b) = Inr im
                   \<and> map_of (Metadata b) ''DegreesOfFreedom'' = Some (I dof))
       (filter (\<lambda>b. map_of (Metadata b) ''stat'' = Some (S ''effect'')) bucket) runs
   \<and> concat_images (map fst runs) = Inr dceffect
   \<and> concat_images (map (\<lambda>(im, dof). \<lparr>shape = shape im,
                              dataobj = replicate (length (dataobj im)) (of_int dof),
                              affine = affine im\<rparr>) runs) = Inr dcdof
   \<and> list_all2 (\<lambda>b im. nb_load E (File b) = Inr im)
       (filter (\<lambda>b. map_of (Metadata b) ''stat'' = Some (S ''variance'')) bucket) vars
   \<and> concat_images vars = Inr dcvariance
   \<and> filter (\<lambda>b. map_of (Metadata b) ''stat'' \<noteq> None) bucket \<noteq> []
   \<and> ents = AList.delete ''stat''
        (AList.update ''NumLevelTimepoints''
           (I (int (length (filter (\<lambda>b. map_of (Metadata b) ''stat'' = Some (S ''effect'')) bucket))))
           (Metadata (last (filter (\<lambda>b. map_of (Metadata b) ''stat'' \<noteq> None) bucket))))"
proof -
  obtain info where info: "scan_bucket E bucket dcontrast_info0 = Inr info"
    using assms by (auto simp: merge_bucket_def split: sum.splits)
  have ce: "concat_images (dceffect_maps info) = Inr dceffect"
    and cv: "concat_images (dcvariance_maps info) = Inr dcvariance"
    and cd: "concat_images (dcdof_maps info) = Inr dcdof"
    and en: "ents = AList.delete ''stat''
        (AList.update ''NumLevelTimepoints'' (I (int (last (shape dceffect)))) (dcentities info))"
    using assms info by (auto simp: merge_bucket_def split: sum.splits)
  from scan_bucket_result [OF info] obtain runs vars where R:
    "list_all2 (\<lambda>b (im, dof). nb_load E (File b) = Inr im
                   \<and> map_of (Metadata b) ''DegreesOfFreedom'' = Some (I dof))
       (filter (\<lambda>b. map_of (Metadata b) ''stat'' = Some (S ''effect'')) bucket) runs"
    "dceffect_maps info = map fst runs"
    "dcdof_maps info = map (\<lambda>(im, dof). \<lparr>shape = shape im,
                              dataobj = replicate (length (dataobj im)) (of_int dof),
                              affine = affine im\<rparr>) runs"
    "list_all2 (\<lambda>b im. nb_load E (File b) = Inr im)
       (filter (\<lambda>b. map_of (Metadata b) ''stat'' = Some (S ''variance'')) bucket) vars"
    "dcvariance_maps info = vars"
    "dcentities info =
        (if filter (\<lambda>b. map_of (Metadata b) ''stat'' \<noteq> None) bucket = [] then []
         else Metadata (last (filter (\<lambda>b. map_of (Metadata b) ''stat'' \<noteq> None) bucket)))"
    by (auto simp: dcontrast_info0_def)
  have len: "length runs = length (filter (\<lambda>b. map_of (Metadata b) ''stat'' = Some (S ''effect'')) bucket)"
    using R(1) by (simp add: list_all2_lengthD)
  have k: "last (shape dceffect) = length runs" "runs \<noteq> []"
    using concat_images_Inr [OF ce] R(2) by auto
  have "filter (\<lambda>b. map_of (Metadata b) ''stat'' = Some (S ''effect'')) bucket \<noteq> []"
    using k(2) len by auto
  then have ne: "filter (\<lambda>b. map_of (Metadata b) ''stat'' \<noteq> None) bucket \<noteq> []"
    by (auto simp: filter_empty_conv)
  show ?thesis
    apply (rule exI [of _ runs])
    apply (rule exI [of _ vars])
    using R ce cv cd en k len ne by simp
qed

subsection \<open>The loop over the dummy contrasts, and the buckets\<close>

lemma save_stats_three:
  assumes "save_stats E [(''effect'', e), (''variance'', v), (''dof'', d)] ents mi = Inr (ents', mi')"
  shows "\<exists>pe pv pd. effect_maps mi' = effect_maps mi @ [pe]
     \<and> variance_maps mi' = variance_maps mi @ [pv]
     \<and> dof_maps mi' = dof_maps mi @ [pd]
     \<and> saved mi' = saved mi @ [(pe, e), (pv, v), (pd, d)]
     \<and> map_entities mi' = map_entities mi
     \<and> mask_files mi' = mask_files mi"
  using assms by (auto simp: add_map_def Let_def split: option.splits)

lemma merge_maps_loop_result:
  "merge_maps_loop E org deriv al dcs mi = Inr mi' \<Longrightarrow>
   \<exists>gs :: merged_group list. list_all2 (\<lambda>d g. \<exists>bucket. map_of org d = Some bucket
              \<and> merge_bucket E bucket
                  = Inr (mg_entities g, snd (mg_effect g), snd (mg_variance g), snd (mg_dof g)))
           dcs gs
     \<and> map_entities mi' = map_entities mi @ map mg_entities gs
     \<and> effect_maps mi' = effect_maps mi @ map (\<lambda>g. fst (mg_effect g)) gs
     \<and> variance_maps mi' = variance_maps mi @ map (\<lambda>g. fst (mg_variance g)) gs
     \<and> dof_maps mi' = dof_maps mi @ map (\<lambda>g. fst (mg_dof g)) gs
     \<and> saved mi' = saved mi @ concat (map (\<lambda>g. [mg_effect g, mg_variance g, mg_dof g]) gs)
     \<and> length (mask_files mi') = length (mask_files mi) + length dcs"
proof (induction dcs arbitrary: mi)
  case Nil
  then show ?case by simp
next
  case (Cons d rest)
  obtain bucket where bucket: "map_of org d = Some bucket"
    using Cons.prems by (auto split: option.splits)
  obtain ents e v df where mb: "merge_bucket E bucket = Inr (ents, e, v, df)"
    using Cons.prems bucket by (auto split: sum.splits)
  obtain c where c: "map_of ents ''contrast'' = Some c"
    using Cons.prems bucket mb by (auto split: option.splits)
  obtain camel where camel: "snake_to_camel E c = Inr camel"
    using Cons.prems bucket mb c by (auto split: sum.splits)
  obtain ents2 mi2 where ss: "save_stats E [(''effect'', e), (''variance'', v), (''dof'', df)]
             (AList.update ''contrast'' camel (AList.delete ''run'' ents))
             (mi\<lparr>map_entities := map_entities mi @ [ents]\<rparr>) = Inr (ents2, mi2)"
    using Cons.prems bucket mb c camel by (auto split: sum.splits)
  obtain rel where rel: "build_path E (if al = None \<or> al = Some 0
                        then AList.update ''run'' (I 1) ents2
                        else AList.update ''run'' (I (the al)) ents2) mask_patt = Some rel"
    using Cons.prems bucket mb c camel ss by (auto simp: Let_def split: option.splits)
  define mi3 where "mi3 = mi2\<lparr>mask_files := mask_files mi2 @ [path_join deriv rel]\<rparr>"
  have rec: "merge_maps_loop E org deriv al rest mi3 = Inr mi'"
    using Cons.prems bucket mb c camel ss rel by (simp add: Let_def mi3_def)
  from save_stats_three [OF ss] obtain pe pv pd where P:
    "effect_maps mi3 = effect_maps mi @ [pe]"
    "variance_maps mi3 = variance_maps mi @ [pv]"
    "dof_maps mi3 = dof_maps mi @ [pd]"
    "saved mi3 = saved mi @ [(pe, e), (pv, v), (pd, df)]"
    "map_entities mi3 = map_entities mi @ [ents]"
    "length (mask_files mi3) = Suc (length (mask_files mi))"
    by (auto simp: mi3_def)
  from Cons.IH [OF rec] obtain gs :: "merged_group list" where R:
    "list_all2 (\<lambda>d g. \<exists>bucket. map_of org d = Some bucket
              \<and> merge_bucket E bucket
                  = Inr (mg_entities g, snd (mg_effect g), snd (mg_variance g), snd (mg_dof g)))
           rest gs"
    "map_entities mi' = map_entities mi3 @ map mg_entities gs"
    "effect_maps mi' = effect_maps mi3 @ map (\<lambda>g. fst (mg_effect g)) gs"
    "variance_maps mi' = variance_maps mi3 @ map (\<lambda>g. fst (mg_variance g)) gs"
    "dof_maps mi' = dof_maps mi3 @ map (\<lambda>g. fst (mg_dof g)) gs"
    "saved mi' = saved mi3 @ concat (map (\<lambda>g. [mg_effect g, mg_variance g, mg_dof g]) gs)"
    "length (mask_files mi') = length (mask_files mi3) + length rest"
    by blast
  define g where "g = \<lparr>mg_entities = ents, mg_effect = (pe, e), mg_variance = (pv, v),
                        mg_dof = (pd, df)\<rparr>"
  show ?case
    apply (rule exI [of _ "g # gs"])
    using R P bucket mb by (simp add: g_def)
qed

lemma organize_buckets:
  "organize xs org = Inr org' \<Longrightarrow>
   (\<forall>k bucket. map_of org k = Some bucket \<longrightarrow>
        (\<forall>b \<in> set bucket. map_of (Metadata b) ''contrast'' = Some k)) \<Longrightarrow>
   (\<forall>k bucket. map_of org' k = Some bucket \<longrightarrow>
        (\<forall>b \<in> set bucket. map_of (Metadata b) ''contrast'' = Some k))"
proof (induction xs arbitrary: org)
  case Nil
  then show ?case by simp
next
  case (Cons x xs)
  obtain f e where x: "x = (f, e)" by (cases x)
  obtain c where c: "map_of e ''contrast'' = Some c"
    using Cons.prems(1) x by (auto split: option.splits)
  define org1 where "org1 = (if map_of org c = None then AList.update c [] org else org)"
  define org2 where "org2 = AList.update c
       ((case map_of org1 c of None \<Rightarrow> [] | Some b \<Rightarrow> b) @ [\<lparr>File = f, Metadata = e\<rparr>]) org1"
  have rec: "organize xs org2 = Inr org'"
    using Cons.prems(1) x c by (simp add: org1_def org2_def Let_def)
  have inv1: "\<forall>k bucket. map_of org1 k = Some bucket \<longrightarrow>
        (\<forall>b \<in> set bucket. map_of (Metadata b) ''contrast'' = Some k)"
    using Cons.prems(2) by (auto simp: org1_def update_conv' split: if_splits)
  have inv2: "\<forall>k bucket. map_of org2 k = Some bucket \<longrightarrow>
        (\<forall>b \<in> set bucket. map_of (Metadata b) ''contrast'' = Some k)"
  proof (intro allI impI)
    fix k bucket
    assume kb: "map_of org2 k = Some bucket"
    show "\<forall>b \<in> set bucket. map_of (Metadata b) ''contrast'' = Some k"
    proof (cases "k = c")
      case False
      then have "map_of org1 k = Some bucket"
        using kb by (simp add: org2_def update_conv')
      then show ?thesis using inv1 by blast
    next
      case True
      show ?thesis
      proof (cases "map_of org1 c")
        case None
        then have "bucket = [\<lparr>File = f, Metadata = e\<rparr>]"
          using kb True by (simp add: org2_def update_conv')
        then show ?thesis using c True by simp
      next
        case (Some old)
        then have "bucket = old @ [\<lparr>File = f, Metadata = e\<rparr>]"
          using kb True by (simp add: org2_def update_conv')
        moreover have "\<forall>b \<in> set old. map_of (Metadata b) ''contrast'' = Some c"
          using inv1 Some by blast
        ultimately show ?thesis using c True by simp
      qed
    qed
  qed
  from Cons.IH [OF rec inv2] show ?case .
qed

lemma organize_keys:
  "organize xs org = Inr org' \<Longrightarrow>
   fst ` set org' = fst ` set org \<union> {c. \<exists>x \<in> set xs. map_of (snd x) ''contrast'' = Some c}"
proof (induction xs arbitrary: org)
  case Nil
  then show ?case by simp
next
  case (Cons x xs)
  obtain f e where x: "x = (f, e)" by (cases x)
  obtain c where c: "map_of e ''contrast'' = Some c"
    using Cons.prems(1) x by (auto split: option.splits)
  define org1 where "org1 = (if map_of org c = None then AList.update c [] org else org)"
  define org2 where "org2 = AList.update c
       ((case map_of org1 c of None \<Rightarrow> [] | Some b \<Rightarrow> b) @ [\<lparr>File = f, Metadata = e\<rparr>]) org1"
  have rec: "organize xs org2 = Inr org'"
    using Cons.prems(1) x c by (simp add: org1_def org2_def Let_def)
  have "fst ` set org2 = insert c (fst ` set org)"
    by (auto simp: org2_def org1_def dom_update)
  with Cons.IH [OF rec] show ?case
    using x c by auto
qed

text \<open>The buckets exactly: their order and their contents.\<close>

lemma organize_append:
  "organize (xs @ ys) org =
     (case organize xs org of Inl e \<Rightarrow> Inl e | Inr org' \<Rightarrow> organize ys org')"
proof (induction xs arbitrary: org)
  case Nil
  show ?case by simp
next
  case (Cons x xs)
  obtain f e where x: "x = (f, e)" by (cases x)
  show ?case
    unfolding x by (simp add: Cons.IH Let_def split: option.splits)
qed

lemma update_keys:
  "map fst (AList.update k v al)
     = (if k \<in> fst ` set al then map fst al else map fst al @ [k])"
  by (induction al) auto

lemma organize_one:
  assumes "organize [(f, e)] org = Inr org'"
  shows "\<exists>c. map_of e ''contrast'' = Some c
     \<and> map fst org' = (if c \<in> fst ` set org then map fst org else map fst org @ [c])
     \<and> map_of org' = (map_of org)
          (c \<mapsto> (case map_of org c of None \<Rightarrow> [] | Some b \<Rightarrow> b) @ [\<lparr>File = f, Metadata = e\<rparr>])"
proof -
  obtain c where c: "map_of e ''contrast'' = Some c"
    using assms by (auto split: option.splits)
  show ?thesis
  proof (cases "map_of org c")
    case None
    then have notin: "c \<notin> fst ` set org"
      by (simp add: map_of_eq_None_iff)
    have "org' = AList.update c [\<lparr>File = f, Metadata = e\<rparr>] (AList.update c [] org)"
      using assms c None by (simp add: Let_def update_conv')
    then show ?thesis
      using c None notin by (auto simp: update_keys update_conv' dom_update)
  next
    case (Some b)
    then have isin: "c \<in> fst ` set org"
      using map_of_SomeD [of org c b] by force
    have "org' = AList.update c (b @ [\<lparr>File = f, Metadata = e\<rparr>]) org"
      using assms c Some by (simp add: Let_def)
    then show ?thesis
      using c Some isin by (auto simp: update_keys update_conv')
  qed
qed

lemma organize_buckets_exact:
  "organize xs [] = Inr org \<Longrightarrow>
     map Some (map fst org) = rev (remdups (rev (map (\<lambda>x. map_of (snd x) ''contrast'') xs)))
   \<and> (\<forall>k. map_of org k =
         (if filter (\<lambda>x. map_of (snd x) ''contrast'' = Some k) xs = [] then None
          else Some (map (\<lambda>x. \<lparr>File = fst x, Metadata = snd x\<rparr>)
                       (filter (\<lambda>x. map_of (snd x) ''contrast'' = Some k) xs))))"
proof (induction xs arbitrary: org rule: rev_induct)
  case Nil
  then show ?case by simp
next
  case (snoc x xs)
  obtain f e where x: "x = (f, e)" by (cases x)
  obtain org1 where o1: "organize xs [] = Inr org1" and step: "organize [(f, e)] org1 = Inr org"
    using snoc.prems unfolding x organize_append by (auto split: sum.splits)
  note IH = snoc.IH [OF o1]
  from organize_one [OF step] obtain c where c: "map_of e ''contrast'' = Some c"
    and keys: "map fst org = (if c \<in> fst ` set org1 then map fst org1 else map fst org1 @ [c])"
    and look: "map_of org = (map_of org1)
          (c \<mapsto> (case map_of org1 c of None \<Rightarrow> [] | Some b \<Rightarrow> b) @ [\<lparr>File = f, Metadata = e\<rparr>])"
    by blast
  let ?ks = "map (\<lambda>x. map_of (snd x) ''contrast'') xs"
  have mem: "Some c \<in> set ?ks \<longleftrightarrow> c \<in> fst ` set org1"
  proof -
    have "set ?ks = set (map Some (map fst org1))"
      using IH by simp
    also have "\<dots> = Some ` (fst ` set org1)"
      by (simp add: image_image)
    finally have e: "set ?ks = Some ` (fst ` set org1)" .
    show ?thesis unfolding e by auto
  qed
  have A: "map Some (map fst org)
         = rev (remdups (rev (map (\<lambda>x. map_of (snd x) ''contrast'') (xs @ [x]))))"
    using IH keys mem c by (simp add: x)
  have B: "map_of org k =
         (if filter (\<lambda>x. map_of (snd x) ''contrast'' = Some k) (xs @ [x]) = [] then None
          else Some (map (\<lambda>x. \<lparr>File = fst x, Metadata = snd x\<rparr>)
                       (filter (\<lambda>x. map_of (snd x) ''contrast'' = Some k) (xs @ [x]))))" for k
  proof (cases "k = c")
    case False
    then show ?thesis using IH look c by (simp add: x)
  next
    case True
    show ?thesis
      using IH look c True by (simp add: x)
  qed
  from A B show ?case by blast
qed

lemma last_filter_stronger:
  assumes "\<And>x. P x \<Longrightarrow> Q x" "filter Q xs \<noteq> []" "P (last (filter Q xs))"
  shows "last (filter P xs) = last (filter Q xs)"
  using assms(2,3)
proof (induction xs rule: rev_induct)
  case Nil
  then show ?case by simp
next
  case (snoc x xs)
  show ?case
  proof (cases "Q x")
    case True
    then have "P x" using snoc.prems(2) by simp
    then show ?thesis using True by simp
  next
    case False
    then have "\<not> P x" using assms(1) by blast
    then show ?thesis using False snoc by simp
  qed
qed

subsection \<open>The whole aggregation\<close>

lemma list_outputs_higher_groups:
  assumes "list_outputs_higher E model maps metas deriv al fs = Inr (out, fs')"
  shows "\<exists>org (gs :: merged_group list) mp.
     organize (zip maps metas) [] = Inr org
   \<and> get_organization model maps metas
       = Inr (org, (case DummyContrasts model of
                      None \<Rightarrow> []
                    | Some (Some conds) \<Rightarrow> map S conds
                    | Some None \<Rightarrow> map fst org))
   \<and> list_all2 (\<lambda>d g. \<exists>bucket. map_of org d = Some bucket
              \<and> merge_bucket E bucket
                  = Inr (mg_entities g, snd (mg_effect g), snd (mg_variance g), snd (mg_dof g)))
        (case DummyContrasts model of
           None \<Rightarrow> []
         | Some (Some conds) \<Rightarrow> map S conds
         | Some None \<Rightarrow> map fst org) gs
   \<and> out_contrast_metadata out = map mg_entities gs
   \<and> out_effect_maps out = map (\<lambda>g. fst (mg_effect g)) gs
   \<and> out_variance_maps out = map (\<lambda>g. fst (mg_variance g)) gs
   \<and> out_dof_maps out = map (\<lambda>g. fst (mg_dof g)) gs
   \<and> out_saved out = concat (map (\<lambda>g. [mg_effect g, mg_variance g, mg_dof g]) gs)
   \<and> produce_matrices E (map mg_entities gs) fs = Inr (mp, fs')
   \<and> out_contrast_matrices out = contrast_matrices mp
   \<and> out_design_matrices out = design_matrices mp
   \<and> out_covariance_matrices out = covariance_matrices mp"
proof -
  obtain org where org: "organize (zip maps metas) [] = Inr org"
    using assms by (auto simp: list_outputs_higher_def get_organization_def split: sum.splits)
  define dcs where "dcs = (case DummyContrasts model of
                      None \<Rightarrow> []
                    | Some (Some conds) \<Rightarrow> map S conds
                    | Some None \<Rightarrow> map fst org)"
  have go: "get_organization model maps metas = Inr (org, dcs)"
    using org by (simp add: get_organization_def dcs_def)
  obtain mi where mi: "merge_maps_loop E org deriv al dcs maps_info0 = Inr mi"
    using assms go by (auto simp: list_outputs_higher_def merge_maps_def split: sum.splits)
  obtain mp where mp: "produce_matrices E (map_entities mi) fs = Inr (mp, fs')"
    and out: "out = \<lparr>out_effect_maps = effect_maps mi,
                out_variance_maps = variance_maps mi,
                out_dof_maps = dof_maps mi,
                out_contrast_metadata = map_entities mi,
                out_contrast_matrices = contrast_matrices mp,
                out_design_matrices = design_matrices mp,
                out_covariance_matrices = covariance_matrices mp,
                out_brain_mask = mask_files mi,
                out_saved = saved mi\<rparr>"
    using assms go mi by (auto simp: list_outputs_higher_def merge_maps_def split: sum.splits)
  from merge_maps_loop_result [OF mi] obtain gs :: "merged_group list" where G:
    "list_all2 (\<lambda>d g. \<exists>bucket. map_of org d = Some bucket
              \<and> merge_bucket E bucket
                  = Inr (mg_entities g, snd (mg_effect g), snd (mg_variance g), snd (mg_dof g)))
           dcs gs"
    "map_entities mi = map mg_entities gs"
    "effect_maps mi = map (\<lambda>g. fst (mg_effect g)) gs"
    "variance_maps mi = map (\<lambda>g. fst (mg_variance g)) gs"
    "dof_maps mi = map (\<lambda>g. fst (mg_dof g)) gs"
    "saved mi = concat (map (\<lambda>g. [mg_effect g, mg_variance g, mg_dof g]) gs)"
    by (auto simp: maps_info0_def)
  show ?thesis
    apply (rule exI [of _ org])
    apply (rule exI [of _ gs])
    apply (rule exI [of _ mp])
    using org go G mp out unfolding dcs_def by simp
qed

lemma organize_from_empty:
  assumes "organize xs [] = Inr org"
  shows "(\<forall>k bucket. map_of org k = Some bucket \<longrightarrow>
            (\<forall>b \<in> set bucket. map_of (Metadata b) ''contrast'' = Some k))
       \<and> fst ` set org = {c. \<exists>x \<in> set xs. map_of (snd x) ''contrast'' = Some c}"
  using organize_buckets [OF assms] organize_keys [OF assms] by simp

lemma merged_entities_lookup:
  assumes "ents = AList.delete ''stat'' (AList.update ''NumLevelTimepoints'' (I k) meta)"
  shows "map_of ents ''stat'' = None"
    and "map_of ents ''NumLevelTimepoints'' = Some (I k)"
    and "map_of ents ''run'' = map_of meta ''run''"
    and "map_of ents ''contrast'' = map_of meta ''contrast''"
  using assms by (simp_all add: delete_conv' update_conv')

text \<open>The example aggregation, evaluated: a first run in an empty working directory.\<close>

lemma ex_first_run:
  "list_outputs_higher ex_env ex_step ex_maps ex_metadata ''/deriv'' None []
     = Inr (ex_out, ex_files)"
  by code_simp

text \<open>The second and third example aggregations, evaluated.\<close>

lemma ex2_first_run:
  "list_outputs_higher ex2_env ex_step ex2_maps ex2_metadata ''/deriv'' None []
     = Inr (ex2_out, ex2_files)"
  by code_simp

lemma ex2_go_run:
  "list_outputs_higher ex2_env ex2_step ex2_maps ex2_metadata ''/deriv'' None []
     = Inr (ex2_go_out, ex2_go_files)"
  by code_simp

lemma ex3_first_run:
  "list_outputs_higher ex2_env ex_step ex3_maps ex3_metadata ''/deriv'' None []
     = Inr (ex3_out, ex2_go_files)"
  by code_simp

text \<open>
  Claim C4 as stated fails for a model step without the key \<open>DummyContrasts\<close>: the
  input holds an effect and a variance map of two runs for the contrast \<open>go_stop\<close>, the
  bucket is formed, and nothing is merged: every output list is empty and no file is
  written.
\<close>

theorem C4_no_dummy_contrasts_counterexample:
  "map (\<lambda>e. map_of e ''contrast'') ex_metadata
     = [Some (S ''go_stop''), Some (S ''go_stop''), Some (S ''go_stop''), Some (S ''go_stop'')]
   \<and> list_outputs_higher ex_env (ex_step\<lparr>DummyContrasts := None\<rparr>) ex_maps ex_metadata
        ''/deriv'' None []
     = Inr (\<lparr>out_effect_maps = [], out_variance_maps = [], out_dof_maps = [],
             out_contrast_metadata = [], out_contrast_matrices = [],
             out_design_matrices = [], out_covariance_matrices = [],
             out_brain_mask = [], out_saved = []\<rparr>, [])"
  by code_simp

text \<open>
  Claim C4, amended: what is merged is the list \<open>dummy_contrasts\<close>, not every bucket.
  Whenever the aggregation returns:

  \<^item> the input was partitioned into buckets: the keys of \<open>organization\<close> are the contrasts
    of the zipped input, each once, in order of first appearance, and the bucket of a
    contrast holds exactly the input entries of that contrast, in input order;

  \<^item> \<open>dummy_contrasts\<close> is empty when the model has no \<open>DummyContrasts\<close> key, the listed
    \<open>Conditions\<close> when it has them, and the keys of all buckets, in order of first
    appearance, when \<open>DummyContrasts\<close> has no \<open>Conditions\<close>;

  \<^item> the outputs hold one merged group per dummy contrast, in that order, and nothing
    else: the merged entities carry the dummy contrast as \<open>contrast\<close>, and the three
    volumes saved for it are the concatenation of the loaded effect maps of its bucket,
    the concatenation of the loaded variance maps of its bucket, and the concatenation
    of the per-run DOF volumes, each under the path returned for it.
\<close>

theorem C4_dummy_contrasts_select_buckets:
  assumes "list_outputs_higher E model contrast_maps contrast_metadata derivatives align_volumes fs
             = Inr (out, fs')"
  shows "\<exists>organization dummy_contrasts (groups :: merged_group list).
      get_organization model contrast_maps contrast_metadata = Inr (organization, dummy_contrasts)
    \<and> map Some (map fst organization)
        = rev (remdups (rev (map (\<lambda>x. map_of (snd x) ''contrast'')
                                 (zip contrast_maps contrast_metadata))))
    \<and> (\<forall>k. map_of organization k =
          (if filter (\<lambda>x. map_of (snd x) ''contrast'' = Some k)
                (zip contrast_maps contrast_metadata) = [] then None
           else Some (map (\<lambda>x. \<lparr>File = fst x, Metadata = snd x\<rparr>)
                        (filter (\<lambda>x. map_of (snd x) ''contrast'' = Some k)
                           (zip contrast_maps contrast_metadata)))))
    \<and> dummy_contrasts = (case DummyContrasts model of
                           None \<Rightarrow> []
                         | Some (Some conds) \<Rightarrow> map S conds
                         | Some None \<Rightarrow> map fst organization)
    \<and> out_contrast_metadata out = map mg_entities groups
    \<and> out_effect_maps out = map (\<lambda>g. fst (mg_effect g)) groups
    \<and> out_variance_maps out = map (\<lambda>g. fst (mg_variance g)) groups
    \<and> out_dof_maps out = map (\<lambda>g. fst (mg_dof g)) groups
    \<and> out_saved out = concat (map (\<lambda>g. [mg_effect g, mg_variance g, mg_dof g]) groups)
    \<and> list_all2
        (\<lambda>d g. \<exists>bucket runs vars.
            map_of organization d = Some bucket
          \<and> bucket = map (\<lambda>x. \<lparr>File = fst x, Metadata = snd x\<rparr>)
                        (filter (\<lambda>x. map_of (snd x) ''contrast'' = Some d)
                           (zip contrast_maps contrast_metadata))
          \<and> map_of (mg_entities g) ''contrast'' = Some d
          \<and> list_all2 (\<lambda>b (im, dof). nb_load E (File b) = Inr im
                          \<and> map_of (Metadata b) ''DegreesOfFreedom'' = Some (I dof))
              (filter (\<lambda>b. map_of (Metadata b) ''stat'' = Some (S ''effect'')) bucket) runs
          \<and> concat_images (map fst runs) = Inr (snd (mg_effect g))
          \<and> list_all2 (\<lambda>b im. nb_load E (File b) = Inr im)
              (filter (\<lambda>b. map_of (Metadata b) ''stat'' = Some (S ''variance'')) bucket) vars
          \<and> concat_images vars = Inr (snd (mg_variance g))
          \<and> concat_images
               (map (\<lambda>(im, dof). \<lparr>shape = shape im,
                                   dataobj = replicate (length (dataobj im)) (of_int dof),
                                   affine = affine im\<rparr>) runs) = Inr (snd (mg_dof g)))
        dummy_contrasts groups"
proof -
  from list_outputs_higher_groups [OF assms] obtain org and gs :: "merged_group list" where H:
    "organize (zip contrast_maps contrast_metadata) [] = Inr org"
    "get_organization model contrast_maps contrast_metadata
       = Inr (org, (case DummyContrasts model of
                      None \<Rightarrow> []
                    | Some (Some conds) \<Rightarrow> map S conds
                    | Some None \<Rightarrow> map fst org))"
    "list_all2 (\<lambda>d g. \<exists>bucket. map_of org d = Some bucket
              \<and> merge_bucket E bucket
                  = Inr (mg_entities g, snd (mg_effect g), snd (mg_variance g), snd (mg_dof g)))
        (case DummyContrasts model of
           None \<Rightarrow> []
         | Some (Some conds) \<Rightarrow> map S conds
         | Some None \<Rightarrow> map fst org) gs"
    "out_contrast_metadata out = map mg_entities gs"
    "out_effect_maps out = map (\<lambda>g. fst (mg_effect g)) gs"
    "out_variance_maps out = map (\<lambda>g. fst (mg_variance g)) gs"
    "out_dof_maps out = map (\<lambda>g. fst (mg_dof g)) gs"
    "out_saved out = concat (map (\<lambda>g. [mg_effect g, mg_variance g, mg_dof g]) gs)"
    by blast
  note inv = organize_from_empty [OF H(1)]
  from organize_buckets_exact [OF H(1)]
  have keys: "map Some (map fst org)
        = rev (remdups (rev (map (\<lambda>x. map_of (snd x) ''contrast'')
                                 (zip contrast_maps contrast_metadata))))"
    and look: "\<forall>k. map_of org k =
          (if filter (\<lambda>x. map_of (snd x) ''contrast'' = Some k)
                (zip contrast_maps contrast_metadata) = [] then None
           else Some (map (\<lambda>x. \<lparr>File = fst x, Metadata = snd x\<rparr>)
                        (filter (\<lambda>x. map_of (snd x) ''contrast'' = Some k)
                           (zip contrast_maps contrast_metadata))))"
    by blast+
  let ?Q = "\<lambda>d (g :: merged_group). \<exists>bucket runs vars.
            map_of org d = Some bucket
          \<and> bucket = map (\<lambda>x. \<lparr>File = fst x, Metadata = snd x\<rparr>)
                        (filter (\<lambda>x. map_of (snd x) ''contrast'' = Some d)
                           (zip contrast_maps contrast_metadata))
          \<and> map_of (mg_entities g) ''contrast'' = Some d
          \<and> list_all2 (\<lambda>b (im, dof). nb_load E (File b) = Inr im
                          \<and> map_of (Metadata b) ''DegreesOfFreedom'' = Some (I dof))
              (filter (\<lambda>b. map_of (Metadata b) ''stat'' = Some (S ''effect'')) bucket) runs
          \<and> concat_images (map fst runs) = Inr (snd (mg_effect g))
          \<and> list_all2 (\<lambda>b im. nb_load E (File b) = Inr im)
              (filter (\<lambda>b. map_of (Metadata b) ''stat'' = Some (S ''variance'')) bucket) vars
          \<and> concat_images vars = Inr (snd (mg_variance g))
          \<and> concat_images
               (map (\<lambda>(im, dof). \<lparr>shape = shape im,
                                   dataobj = replicate (length (dataobj im)) (of_int dof),
                                   affine = affine im\<rparr>) runs) = Inr (snd (mg_dof g))"
  have step: "?Q d g"
    if "\<exists>bucket. map_of org d = Some bucket
              \<and> merge_bucket E bucket
                  = Inr (mg_entities g, snd (mg_effect g), snd (mg_variance g), snd (mg_dof g))"
    for d and g :: merged_group
  proof -
    from that obtain bucket where b: "map_of org d = Some bucket"
      "merge_bucket E bucket
         = Inr (mg_entities g, snd (mg_effect g), snd (mg_variance g), snd (mg_dof g))"
      by blast
    let ?st = "filter (\<lambda>b. map_of (Metadata b) ''stat'' \<noteq> None) bucket"
    from merge_bucket_result [OF b(2)] obtain runs vars where R:
      "list_all2 (\<lambda>b (im, dof). nb_load E (File b) = Inr im
                          \<and> map_of (Metadata b) ''DegreesOfFreedom'' = Some (I dof))
         (filter (\<lambda>b. map_of (Metadata b) ''stat'' = Some (S ''effect'')) bucket) runs"
      "concat_images (map fst runs) = Inr (snd (mg_effect g))"
      "concat_images (map (\<lambda>(im, dof). \<lparr>shape = shape im,
                              dataobj = replicate (length (dataobj im)) (of_int dof),
                              affine = affine im\<rparr>) runs) = Inr (snd (mg_dof g))"
      "list_all2 (\<lambda>b im. nb_load E (File b) = Inr im)
         (filter (\<lambda>b. map_of (Metadata b) ''stat'' = Some (S ''variance'')) bucket) vars"
      "concat_images vars = Inr (snd (mg_variance g))"
      "?st \<noteq> []"
      "mg_entities g = AList.delete ''stat''
        (AList.update ''NumLevelTimepoints''
           (I (int (length (filter (\<lambda>b. map_of (Metadata b) ''stat'' = Some (S ''effect'')) bucket))))
           (Metadata (last ?st)))"
      by blast
    have "last ?st \<in> set bucket"
      using last_in_set [OF R(6)] by auto
    then have "map_of (Metadata (last ?st)) ''contrast'' = Some d"
      using inv b(1) by blast
    then have con: "map_of (mg_entities g) ''contrast'' = Some d"
      using merged_entities_lookup(4) [OF R(7)] by simp
    have eq: "bucket = map (\<lambda>x. \<lparr>File = fst x, Metadata = snd x\<rparr>)
                        (filter (\<lambda>x. map_of (snd x) ''contrast'' = Some d)
                           (zip contrast_maps contrast_metadata))"
      using look [rule_format, of d] b(1) by (simp split: if_splits)
    from b(1) eq con R(1,2,4,5,3) show ?thesis by blast
  qed
  have all: "list_all2 ?Q
        (case DummyContrasts model of
           None \<Rightarrow> []
         | Some (Some conds) \<Rightarrow> map S conds
         | Some None \<Rightarrow> map fst org) gs"
    by (rule list_all2_mono [OF H(3)]) (rule step)
  show ?thesis
    apply (rule exI [of _ org])
    apply (rule exI [of _ "case DummyContrasts model of
           None \<Rightarrow> []
         | Some (Some conds) \<Rightarrow> map S conds
         | Some None \<Rightarrow> map fst org"])
    apply (rule exI [of _ gs])
    using H(2,4,5,6,7,8) keys look all by blast
qed

text \<open>
  In the second example the input names the contrast \<open>stop\<close> first and \<open>go\<close> second.
  With \<open>DummyContrasts\<close> without \<open>Conditions\<close> both buckets are merged, \<open>stop\<close> before
  \<open>go\<close>; with the \<open>Conditions\<close> \<open>go\<close> the bucket \<open>go\<close> alone is merged, from its one
  effect and its one variance map.
\<close>

theorem C4_dummy_contrasts_select_buckets_witness:
  "list_outputs_higher ex2_env ex_step ex2_maps ex2_metadata ''/deriv'' None []
     = Inr (ex2_out, ex2_files)
   \<and> DummyContrasts ex_step = Some None
   \<and> map (\<lambda>e. map_of e ''contrast'') ex2_metadata
       = [Some (S ''stop''), Some (S ''go''), Some (S ''go''), Some (S ''go''), Some (S ''stop'')]
   \<and> map (\<lambda>e. map_of e ''contrast'') (out_contrast_metadata ex2_out)
       = [Some (S ''stop''), Some (S ''go'')]
   \<and> out_saved ex2_out
       = [(ex2_merged ''stop'' ''effect'', \<lparr>shape = [2, 1, 1, 1], dataobj = [5, 6], affine = [1]\<rparr>),
          (ex2_merged ''stop'' ''variance'', \<lparr>shape = [2, 1, 1, 1], dataobj = [2, 2], affine = [1]\<rparr>),
          (ex2_merged ''stop'' ''dof'', \<lparr>shape = [2, 1, 1, 1], dataobj = [6, 6], affine = [1]\<rparr>),
          (ex2_merged ''go'' ''effect'', \<lparr>shape = [2, 1, 1, 1], dataobj = [3, 4], affine = [1]\<rparr>),
          (ex2_merged ''go'' ''variance'', \<lparr>shape = [2, 1, 1, 1], dataobj = [1, 1], affine = [1]\<rparr>),
          (ex2_merged ''go'' ''dof'', \<lparr>shape = [2, 1, 1, 1], dataobj = [6, 6], affine = [1]\<rparr>)]
   \<and> list_outputs_higher ex2_env ex2_step ex2_maps ex2_metadata ''/deriv'' None []
       = Inr (ex2_go_out, ex2_go_files)
   \<and> DummyContrasts ex2_step = Some (Some [''go''])
   \<and> map (\<lambda>e. map_of e ''contrast'') (out_contrast_metadata ex2_go_out) = [Some (S ''go'')]
   \<and> out_saved ex2_go_out
       = [(ex2_merged ''go'' ''effect'', \<lparr>shape = [2, 1, 1, 1], dataobj = [3, 4], affine = [1]\<rparr>),
          (ex2_merged ''go'' ''variance'', \<lparr>shape = [2, 1, 1, 1], dataobj = [1, 1], affine = [1]\<rparr>),
          (ex2_merged ''go'' ''dof'', \<lparr>shape = [2, 1, 1, 1], dataobj = [6, 6], affine = [1]\<rparr>)]"
proof -
  note all_buckets = C4_dummy_contrasts_select_buckets [OF ex2_first_run]
  note go_bucket = C4_dummy_contrasts_select_buckets [OF ex2_go_run]
  have concrete: "DummyContrasts ex_step = Some None"
    "DummyContrasts ex2_step = Some (Some [''go''])"
    "map (\<lambda>e. map_of e ''contrast'') ex2_metadata
       = [Some (S ''stop''), Some (S ''go''), Some (S ''go''), Some (S ''go''), Some (S ''stop'')]"
    "map (\<lambda>e. map_of e ''contrast'') (out_contrast_metadata ex2_out)
       = [Some (S ''stop''), Some (S ''go'')]"
    "map (\<lambda>e. map_of e ''contrast'') (out_contrast_metadata ex2_go_out) = [Some (S ''go'')]"
    by (simp_all add: ex_step_def ex2_step_def ex2_metadata_def ex2_meta_def ex2_out_def
          ex2_go_out_def ex2_ents_def)
  have saved: "out_saved ex2_out
       = [(ex2_merged ''stop'' ''effect'', \<lparr>shape = [2, 1, 1, 1], dataobj = [5, 6], affine = [1]\<rparr>),
          (ex2_merged ''stop'' ''variance'', \<lparr>shape = [2, 1, 1, 1], dataobj = [2, 2], affine = [1]\<rparr>),
          (ex2_merged ''stop'' ''dof'', \<lparr>shape = [2, 1, 1, 1], dataobj = [6, 6], affine = [1]\<rparr>),
          (ex2_merged ''go'' ''effect'', \<lparr>shape = [2, 1, 1, 1], dataobj = [3, 4], affine = [1]\<rparr>),
          (ex2_merged ''go'' ''variance'', \<lparr>shape = [2, 1, 1, 1], dataobj = [1, 1], affine = [1]\<rparr>),
          (ex2_merged ''go'' ''dof'', \<lparr>shape = [2, 1, 1, 1], dataobj = [6, 6], affine = [1]\<rparr>)]"
    "out_saved ex2_go_out
       = [(ex2_merged ''go'' ''effect'', \<lparr>shape = [2, 1, 1, 1], dataobj = [3, 4], affine = [1]\<rparr>),
          (ex2_merged ''go'' ''variance'', \<lparr>shape = [2, 1, 1, 1], dataobj = [1, 1], affine = [1]\<rparr>),
          (ex2_merged ''go'' ''dof'', \<lparr>shape = [2, 1, 1, 1], dataobj = [6, 6], affine = [1]\<rparr>)]"
    by (simp_all add: ex2_out_def ex2_go_out_def ex2_saved_go_def ex2_saved_stop_def)
  from all_buckets go_bucket ex2_first_run ex2_go_run concrete saved show ?thesis
    by (intro conjI)
qed

text \<open>
  Claim C6 as stated fails on the run key: the merged entities the aggregation returns
  for the example still hold \<open>run\<close>, with the value of the last entry of the bucket.
  \<open>_merge_maps\<close> removes \<open>run\<close> from the copy it builds the output paths from, after the
  merged entities were appended to the returned list.  It also fails when a map with
  another statistic comes last in a bucket: in the third example the last contributing
  entry of the bucket \<open>go\<close> is the variance map of run \<open>01\<close>, with 6 degrees of freedom,
  and the merged entities hold run \<open>02\<close> and 4 degrees of freedom, those of the z-score
  map that is not merged.
\<close>

theorem C6_run_key_kept_counterexample:
  "list_outputs_higher ex_env ex_step ex_maps ex_metadata ''/deriv'' None []
     = Inr (ex_out, ex_files)
   \<and> out_contrast_metadata ex_out
     = [[(''subject'', S ''01''), (''task'', S ''stopsignal''), (''run'', S ''02''),
         (''Volumes'', I 8), (''DegreesOfFreedom'', I 5), (''contrast'', S ''go_stop''),
         (''NumLevelTimepoints'', I 2)]]
   \<and> map (\<lambda>e. map_of e ''run'') (out_contrast_metadata ex_out) = [Some (S ''02'')]
   \<and> list_outputs_higher ex2_env ex_step ex3_maps ex3_metadata ''/deriv'' None []
     = Inr (ex3_out, ex2_go_files)
   \<and> last (filter (\<lambda>e. map_of e ''stat'' = Some (S ''effect'')
                        \<or> map_of e ''stat'' = Some (S ''variance'')) ex3_metadata)
     = [(''subject'', S ''01''), (''task'', S ''stopsignal''), (''run'', S ''01''),
        (''Volumes'', I 8), (''DegreesOfFreedom'', I 6), (''contrast'', S ''go''),
        (''stat'', S ''variance'')]
   \<and> out_contrast_metadata ex3_out
     = [[(''subject'', S ''01''), (''task'', S ''stopsignal''), (''run'', S ''02''),
         (''Volumes'', I 8), (''DegreesOfFreedom'', I 4), (''contrast'', S ''go''),
         (''NumLevelTimepoints'', I 1)]]"
  using ex_first_run ex3_first_run
  by (simp add: ex_out_def ex3_out_def ex2_go_out_def ex2_ents_def ex3_metadata_def ex2_meta_def)

text \<open>
  Claim C6, amended: the run key is kept, and the bucket ends with a contributing entry.
  Whenever the aggregation returns, each dummy contrast has its bucket, the input
  entries of that contrast in input order, and its merged entities, which have no
  \<open>stat\<close> key and hold as \<open>NumLevelTimepoints\<close> the number of effect maps of the bucket.
  The bucket has a contributing entry, one whose \<open>stat\<close> is \<open>effect\<close> or \<open>variance\<close>.
  When the last entry of the bucket that has a \<open>stat\<close> key is a contributing one, the
  merged entities are a copy of the entities of the last contributing entry with
  \<open>NumLevelTimepoints\<close> set and \<open>stat\<close> removed, and every other key, \<open>run\<close> among them,
  as that entry has it.
\<close>

theorem C6_merged_entities:
  assumes "list_outputs_higher E model contrast_maps contrast_metadata derivatives align_volumes fs
             = Inr (out, fs')"
  shows "\<exists>organization dummy_contrasts.
      get_organization model contrast_maps contrast_metadata = Inr (organization, dummy_contrasts)
    \<and> list_all2
        (\<lambda>d ents. \<exists>bucket.
            map_of organization d = Some bucket
          \<and> bucket = map (\<lambda>x. \<lparr>File = fst x, Metadata = snd x\<rparr>)
                        (filter (\<lambda>x. map_of (snd x) ''contrast'' = Some d)
                           (zip contrast_maps contrast_metadata))
          \<and> map_of ents ''stat'' = None
          \<and> map_of ents ''NumLevelTimepoints''
              = Some (I (int (length (filter (\<lambda>b. map_of (Metadata b) ''stat'' = Some (S ''effect''))
                                       bucket))))
          \<and> filter (\<lambda>b. map_of (Metadata b) ''stat'' = Some (S ''effect'')
                        \<or> map_of (Metadata b) ''stat'' = Some (S ''variance'')) bucket \<noteq> []
          \<and> ((map_of (Metadata (last (filter (\<lambda>b. map_of (Metadata b) ''stat'' \<noteq> None) bucket)))
                  ''stat'' = Some (S ''effect'')
              \<or> map_of (Metadata (last (filter (\<lambda>b. map_of (Metadata b) ''stat'' \<noteq> None) bucket)))
                  ''stat'' = Some (S ''variance''))
             \<longrightarrow>
                ents = AList.delete ''stat''
                  (AList.update ''NumLevelTimepoints''
                     (I (int (length (filter (\<lambda>b. map_of (Metadata b) ''stat'' = Some (S ''effect''))
                                       bucket))))
                     (Metadata (last (filter (\<lambda>b. map_of (Metadata b) ''stat'' = Some (S ''effect'')
                                                 \<or> map_of (Metadata b) ''stat'' = Some (S ''variance''))
                                        bucket))))
              \<and> (\<forall>k. k \<noteq> ''stat'' \<and> k \<noteq> ''NumLevelTimepoints'' \<longrightarrow>
                     map_of ents k
                       = map_of (Metadata (last (filter (\<lambda>b. map_of (Metadata b) ''stat'' = Some (S ''effect'')
                                                 \<or> map_of (Metadata b) ''stat'' = Some (S ''variance''))
                                        bucket))) k)
              \<and> map_of ents ''run''
                  = map_of (Metadata (last (filter (\<lambda>b. map_of (Metadata b) ''stat'' = Some (S ''effect'')
                                                 \<or> map_of (Metadata b) ''stat'' = Some (S ''variance''))
                                        bucket))) ''run''))
        dummy_contrasts (out_contrast_metadata out)"
proof -
  from list_outputs_higher_groups [OF assms] obtain org and gs :: "merged_group list" where H:
    "organize (zip contrast_maps contrast_metadata) [] = Inr org"
    "get_organization model contrast_maps contrast_metadata
       = Inr (org, (case DummyContrasts model of
                      None \<Rightarrow> []
                    | Some (Some conds) \<Rightarrow> map S conds
                    | Some None \<Rightarrow> map fst org))"
    "list_all2 (\<lambda>d g. \<exists>bucket. map_of org d = Some bucket
              \<and> merge_bucket E bucket
                  = Inr (mg_entities g, snd (mg_effect g), snd (mg_variance g), snd (mg_dof g)))
        (case DummyContrasts model of
           None \<Rightarrow> []
         | Some (Some conds) \<Rightarrow> map S conds
         | Some None \<Rightarrow> map fst org) gs"
    "out_contrast_metadata out = map mg_entities gs"
    by blast
  from organize_buckets_exact [OF H(1)]
  have look: "\<forall>k. map_of org k =
          (if filter (\<lambda>x. map_of (snd x) ''contrast'' = Some k)
                (zip contrast_maps contrast_metadata) = [] then None
           else Some (map (\<lambda>x. \<lparr>File = fst x, Metadata = snd x\<rparr>)
                        (filter (\<lambda>x. map_of (snd x) ''contrast'' = Some k)
                           (zip contrast_maps contrast_metadata))))"
    by blast
  let ?eff = "\<lambda>b. map_of (Metadata b) ''stat'' = Some (S ''effect'')"
  let ?con = "\<lambda>b. map_of (Metadata b) ''stat'' = Some (S ''effect'')
                        \<or> map_of (Metadata b) ''stat'' = Some (S ''variance'')"
  let ?has = "\<lambda>b. map_of (Metadata b) ''stat'' \<noteq> None"
  let ?Q = "\<lambda>d ents. \<exists>bucket.
            map_of org d = Some bucket
          \<and> bucket = map (\<lambda>x. \<lparr>File = fst x, Metadata = snd x\<rparr>)
                        (filter (\<lambda>x. map_of (snd x) ''contrast'' = Some d)
                           (zip contrast_maps contrast_metadata))
          \<and> map_of ents ''stat'' = None
          \<and> map_of ents ''NumLevelTimepoints'' = Some (I (int (length (filter ?eff bucket))))
          \<and> filter ?con bucket \<noteq> []
          \<and> (?con (last (filter ?has bucket))
             \<longrightarrow>
                ents = AList.delete ''stat''
                  (AList.update ''NumLevelTimepoints'' (I (int (length (filter ?eff bucket))))
                     (Metadata (last (filter ?con bucket))))
              \<and> (\<forall>k. k \<noteq> ''stat'' \<and> k \<noteq> ''NumLevelTimepoints'' \<longrightarrow>
                     map_of ents k = map_of (Metadata (last (filter ?con bucket))) k)
              \<and> map_of ents ''run'' = map_of (Metadata (last (filter ?con bucket))) ''run'')"
  have step: "?Q d (mg_entities g)"
    if "\<exists>bucket. map_of org d = Some bucket
              \<and> merge_bucket E bucket
                  = Inr (mg_entities g, snd (mg_effect g), snd (mg_variance g), snd (mg_dof g))"
    for d and g :: merged_group
  proof -
    from that obtain bucket where b: "map_of org d = Some bucket"
      "merge_bucket E bucket
         = Inr (mg_entities g, snd (mg_effect g), snd (mg_variance g), snd (mg_dof g))"
      by blast
    from merge_bucket_result [OF b(2)] obtain runs where
      runs: "list_all2 (\<lambda>b (im, dof). nb_load E (File b) = Inr im
                          \<and> map_of (Metadata b) ''DegreesOfFreedom'' = Some (I dof))
               (filter ?eff bucket) runs"
        "concat_images (map fst runs) = Inr (snd (mg_effect g))"
      and en: "mg_entities g = AList.delete ''stat''
        (AList.update ''NumLevelTimepoints'' (I (int (length (filter ?eff bucket))))
           (Metadata (last (filter ?has bucket))))"
      by blast
    have "runs \<noteq> []"
      using concat_images_Inr [OF runs(2)] by simp
    then have effne: "filter ?eff bucket \<noteq> []"
      using list_all2_lengthD [OF runs(1)] by auto
    then have conne: "filter ?con bucket \<noteq> []"
      by (auto simp: filter_empty_conv)
    have eq: "bucket = map (\<lambda>x. \<lparr>File = fst x, Metadata = snd x\<rparr>)
                        (filter (\<lambda>x. map_of (snd x) ''contrast'' = Some d)
                           (zip contrast_maps contrast_metadata))"
      using look [rule_format, of d] b(1) by (simp split: if_splits)
    have cond: "?con (last (filter ?has bucket))
             \<longrightarrow>
                mg_entities g = AList.delete ''stat''
                  (AList.update ''NumLevelTimepoints'' (I (int (length (filter ?eff bucket))))
                     (Metadata (last (filter ?con bucket))))
              \<and> (\<forall>k. k \<noteq> ''stat'' \<and> k \<noteq> ''NumLevelTimepoints'' \<longrightarrow>
                     map_of (mg_entities g) k = map_of (Metadata (last (filter ?con bucket))) k)
              \<and> map_of (mg_entities g) ''run''
                  = map_of (Metadata (last (filter ?con bucket))) ''run''"
    proof (rule impI)
      assume c: "?con (last (filter ?has bucket))"
      have hasne: "filter ?has bucket \<noteq> []"
        using conne by (auto simp: filter_empty_conv)
      have "last (filter ?con bucket) = last (filter ?has bucket)"
        by (rule last_filter_stronger [where P = ?con and Q = ?has, OF _ hasne c]) auto
      then have en': "mg_entities g = AList.delete ''stat''
                  (AList.update ''NumLevelTimepoints'' (I (int (length (filter ?eff bucket))))
                     (Metadata (last (filter ?con bucket))))"
        using en by simp
      have other: "map_of (mg_entities g) k = map_of (Metadata (last (filter ?con bucket))) k"
        if "k \<noteq> ''stat'' \<and> k \<noteq> ''NumLevelTimepoints''" for k
        using that by (subst en') (simp add: delete_conv' update_conv')
      have run: "map_of (mg_entities g) ''run''
                  = map_of (Metadata (last (filter ?con bucket))) ''run''"
        by (rule other) simp
      from en' other run
      show "mg_entities g = AList.delete ''stat''
                  (AList.update ''NumLevelTimepoints'' (I (int (length (filter ?eff bucket))))
                     (Metadata (last (filter ?con bucket))))
              \<and> (\<forall>k. k \<noteq> ''stat'' \<and> k \<noteq> ''NumLevelTimepoints'' \<longrightarrow>
                     map_of (mg_entities g) k = map_of (Metadata (last (filter ?con bucket))) k)
              \<and> map_of (mg_entities g) ''run''
                  = map_of (Metadata (last (filter ?con bucket))) ''run''"
        by blast
    qed
    note l1 = merged_entities_lookup(1) [OF en]
    note l2 = merged_entities_lookup(2) [OF en]
    have "map_of org d = Some bucket
          \<and> bucket = map (\<lambda>x. \<lparr>File = fst x, Metadata = snd x\<rparr>)
                        (filter (\<lambda>x. map_of (snd x) ''contrast'' = Some d)
                           (zip contrast_maps contrast_metadata))
          \<and> map_of (mg_entities g) ''stat'' = None
          \<and> map_of (mg_entities g) ''NumLevelTimepoints''
              = Some (I (int (length (filter ?eff bucket))))
          \<and> filter ?con bucket \<noteq> []
          \<and> (?con (last (filter ?has bucket))
             \<longrightarrow>
                mg_entities g = AList.delete ''stat''
                  (AList.update ''NumLevelTimepoints'' (I (int (length (filter ?eff bucket))))
                     (Metadata (last (filter ?con bucket))))
              \<and> (\<forall>k. k \<noteq> ''stat'' \<and> k \<noteq> ''NumLevelTimepoints'' \<longrightarrow>
                     map_of (mg_entities g) k = map_of (Metadata (last (filter ?con bucket))) k)
              \<and> map_of (mg_entities g) ''run''
                  = map_of (Metadata (last (filter ?con bucket))) ''run'')"
      using b(1) eq l1 l2 conne cond by (intro conjI)
    then show ?thesis by (rule exI [where x = bucket])
  qed
  have "list_all2 (\<lambda>d g. ?Q d (mg_entities g))
        (case DummyContrasts model of
           None \<Rightarrow> []
         | Some (Some conds) \<Rightarrow> map S conds
         | Some None \<Rightarrow> map fst org) gs"
    by (rule list_all2_mono [OF H(3)]) (rule step)
  then have "list_all2 ?Q
        (case DummyContrasts model of
           None \<Rightarrow> []
         | Some (Some conds) \<Rightarrow> map S conds
         | Some None \<Rightarrow> map fst org) (map mg_entities gs)"
    by (simp only: list_all2_map2)
  with H(2) have "get_organization model contrast_maps contrast_metadata
       = Inr (org, (case DummyContrasts model of
                      None \<Rightarrow> []
                    | Some (Some conds) \<Rightarrow> map S conds
                    | Some None \<Rightarrow> map fst org))
    \<and> list_all2 ?Q
        (case DummyContrasts model of
           None \<Rightarrow> []
         | Some (Some conds) \<Rightarrow> map S conds
         | Some None \<Rightarrow> map fst org) (out_contrast_metadata out)"
    unfolding H(4) by (intro conjI)
  then show ?thesis by (intro exI)
qed

text \<open>
  In the second example the bucket \<open>go\<close> holds its effect map, the z-score map labelled
  with run \<open>02\<close>, and its variance map, in this order: the last entry with a \<open>stat\<close> key
  is the variance map, and the merged entities are those of the variance map of run
  \<open>01\<close>, run key included.
\<close>

theorem C6_merged_entities_witness:
  "list_outputs_higher ex2_env ex_step ex2_maps ex2_metadata ''/deriv'' None []
     = Inr (ex2_out, ex2_files)
   \<and> filter (\<lambda>e. map_of e ''contrast'' = Some (S ''go'')) ex2_metadata
       = [ex2_meta ''go'' ''01'' 6 ''effect'', ex2_meta ''go'' ''02'' 4 ''zscore'',
          ex2_meta ''go'' ''01'' 6 ''variance'']
   \<and> out_contrast_metadata ex2_out
     = [AList.delete ''stat''
          (AList.update ''NumLevelTimepoints'' (I 1) (ex2_meta ''stop'' ''01'' 6 ''variance'')),
        AList.delete ''stat''
          (AList.update ''NumLevelTimepoints'' (I 1) (ex2_meta ''go'' ''01'' 6 ''variance''))]
   \<and> map (\<lambda>e. map_of e ''run'') (out_contrast_metadata ex2_out) = [Some (S ''01''), Some (S ''01'')]"
proof -
  note merged = C6_merged_entities [OF ex2_first_run]
  have concrete: "filter (\<lambda>e. map_of e ''contrast'' = Some (S ''go'')) ex2_metadata
       = [ex2_meta ''go'' ''01'' 6 ''effect'', ex2_meta ''go'' ''02'' 4 ''zscore'',
          ex2_meta ''go'' ''01'' 6 ''variance'']"
    "out_contrast_metadata ex2_out
     = [AList.delete ''stat''
          (AList.update ''NumLevelTimepoints'' (I 1) (ex2_meta ''stop'' ''01'' 6 ''variance'')),
        AList.delete ''stat''
          (AList.update ''NumLevelTimepoints'' (I 1) (ex2_meta ''go'' ''01'' 6 ''variance''))]"
    "map (\<lambda>e. map_of e ''run'') (out_contrast_metadata ex2_out) = [Some (S ''01''), Some (S ''01'')]"
    by (simp_all add: ex2_metadata_def ex2_meta_def ex2_out_def ex2_ents_def)
  from merged ex2_first_run concrete show ?thesis
    by (intro conjI)
qed

text \<open>
  Claim C9.  Whenever the aggregation returns, each dummy contrast \<open>d\<close> has a merged group:
  its entities, and the effect and DOF volumes saved under the returned paths.  With
  \<open>runs\<close> the effect entries of the bucket of \<open>d\<close>, in input order, each with its loaded
  volume and its \<open>DegreesOfFreedom\<close> entity: \<open>NumLevelTimepoints\<close> is the number of
  runs, which is the last axis of the merged effect volume; the merged effect volume is
  the concatenation of the loaded volumes; the merged DOF volume is the concatenation,
  in the same order, of one volume per run that has the run's grid and affine and the
  run's \<open>DegreesOfFreedom\<close> in every voxel.
\<close>

theorem C9_timepoints_and_dof_volume:
  assumes "list_outputs_higher E model contrast_maps contrast_metadata derivatives align_volumes fs
             = Inr (out, fs')"
  shows "\<exists>organization dummy_contrasts (groups :: merged_group list).
      get_organization model contrast_maps contrast_metadata = Inr (organization, dummy_contrasts)
    \<and> out_contrast_metadata out = map mg_entities groups
    \<and> out_effect_maps out = map (\<lambda>g. fst (mg_effect g)) groups
    \<and> out_dof_maps out = map (\<lambda>g. fst (mg_dof g)) groups
    \<and> out_saved out = concat (map (\<lambda>g. [mg_effect g, mg_variance g, mg_dof g]) groups)
    \<and> list_all2
        (\<lambda>d g. \<exists>bucket runs.
            map_of organization d = Some bucket
          \<and> list_all2 (\<lambda>b (im, dof). nb_load E (File b) = Inr im
                          \<and> map_of (Metadata b) ''DegreesOfFreedom'' = Some (I dof))
              (filter (\<lambda>b. map_of (Metadata b) ''stat'' = Some (S ''effect'')) bucket) runs
          \<and> map_of (mg_entities g) ''NumLevelTimepoints'' = Some (I (int (length runs)))
          \<and> concat_images (map fst runs) = Inr (snd (mg_effect g))
          \<and> last (shape (snd (mg_effect g))) = length runs
          \<and> concat_images
               (map (\<lambda>(im, dof). \<lparr>shape = shape im,
                                   dataobj = replicate (length (dataobj im)) (of_int dof),
                                   affine = affine im\<rparr>) runs) = Inr (snd (mg_dof g))
          \<and> dataobj (snd (mg_dof g))
              = concat (map (\<lambda>(im, dof). replicate (length (dataobj im)) (of_int dof)) runs)
          \<and> shape (snd (mg_dof g)) = shape (snd (mg_effect g)))
        dummy_contrasts groups"
proof -
  from list_outputs_higher_groups [OF assms] obtain org and gs :: "merged_group list" where H:
    "get_organization model contrast_maps contrast_metadata
       = Inr (org, (case DummyContrasts model of
                      None \<Rightarrow> []
                    | Some (Some conds) \<Rightarrow> map S conds
                    | Some None \<Rightarrow> map fst org))"
    "list_all2 (\<lambda>d g. \<exists>bucket. map_of org d = Some bucket
              \<and> merge_bucket E bucket
                  = Inr (mg_entities g, snd (mg_effect g), snd (mg_variance g), snd (mg_dof g)))
        (case DummyContrasts model of
           None \<Rightarrow> []
         | Some (Some conds) \<Rightarrow> map S conds
         | Some None \<Rightarrow> map fst org) gs"
    "out_contrast_metadata out = map mg_entities gs"
    "out_effect_maps out = map (\<lambda>g. fst (mg_effect g)) gs"
    "out_dof_maps out = map (\<lambda>g. fst (mg_dof g)) gs"
    "out_saved out = concat (map (\<lambda>g. [mg_effect g, mg_variance g, mg_dof g]) gs)"
    by blast
  let ?Q = "\<lambda>d (g :: merged_group). \<exists>bucket runs.
            map_of org d = Some bucket
          \<and> list_all2 (\<lambda>b (im, dof). nb_load E (File b) = Inr im
                          \<and> map_of (Metadata b) ''DegreesOfFreedom'' = Some (I dof))
              (filter (\<lambda>b. map_of (Metadata b) ''stat'' = Some (S ''effect'')) bucket) runs
          \<and> map_of (mg_entities g) ''NumLevelTimepoints'' = Some (I (int (length runs)))
          \<and> concat_images (map fst runs) = Inr (snd (mg_effect g))
          \<and> last (shape (snd (mg_effect g))) = length runs
          \<and> concat_images
               (map (\<lambda>(im, dof). \<lparr>shape = shape im,
                                   dataobj = replicate (length (dataobj im)) (of_int dof),
                                   affine = affine im\<rparr>) runs) = Inr (snd (mg_dof g))
          \<and> dataobj (snd (mg_dof g))
              = concat (map (\<lambda>(im, dof). replicate (length (dataobj im)) (of_int dof)) runs)
          \<and> shape (snd (mg_dof g)) = shape (snd (mg_effect g))"
  have step: "?Q d g"
    if "\<exists>bucket. map_of org d = Some bucket
              \<and> merge_bucket E bucket
                  = Inr (mg_entities g, snd (mg_effect g), snd (mg_variance g), snd (mg_dof g))"
    for d and g :: merged_group
  proof -
    from that obtain bucket where b: "map_of org d = Some bucket"
      "merge_bucket E bucket
         = Inr (mg_entities g, snd (mg_effect g), snd (mg_variance g), snd (mg_dof g))"
      by blast
    from merge_bucket_result [OF b(2)] obtain runs where R:
      "list_all2 (\<lambda>b (im, dof). nb_load E (File b) = Inr im
                          \<and> map_of (Metadata b) ''DegreesOfFreedom'' = Some (I dof))
         (filter (\<lambda>b. map_of (Metadata b) ''stat'' = Some (S ''effect'')) bucket) runs"
      "concat_images (map fst runs) = Inr (snd (mg_effect g))"
      "concat_images (map (\<lambda>(im, dof). \<lparr>shape = shape im,
                              dataobj = replicate (length (dataobj im)) (of_int dof),
                              affine = affine im\<rparr>) runs) = Inr (snd (mg_dof g))"
      "mg_entities g = AList.delete ''stat''
        (AList.update ''NumLevelTimepoints''
           (I (int (length (filter (\<lambda>b. map_of (Metadata b) ''stat'' = Some (S ''effect'')) bucket))))
           (Metadata (last (filter (\<lambda>b. map_of (Metadata b) ''stat'' \<noteq> None) bucket))))"
      by blast
    have len: "length (filter (\<lambda>b. map_of (Metadata b) ''stat'' = Some (S ''effect'')) bucket)
                 = length runs"
      using R(1) by (rule list_all2_lengthD)
    have nlt: "map_of (mg_entities g) ''NumLevelTimepoints'' = Some (I (int (length runs)))"
      using merged_entities_lookup(2) [OF R(4)] len by simp
    note ce = concat_images_Inr [OF R(2)]
    note cd = concat_images_Inr [OF R(3)]
    have ne: "runs \<noteq> []" using ce by simp
    have last: "last (shape (snd (mg_effect g))) = length runs"
      using ce by simp
    have data: "dataobj (snd (mg_dof g))
              = concat (map (\<lambda>(im, dof). replicate (length (dataobj im)) (of_int dof)) runs)"
      using cd by (simp add: comp_def case_prod_unfold)
    have shp: "shape (snd (mg_dof g)) = shape (snd (mg_effect g))"
      using ce cd ne by (cases runs) (auto simp: case_prod_unfold)
    from b(1) R(1,2,3) nlt last data shp show ?thesis by blast
  qed
  have "list_all2 ?Q
        (case DummyContrasts model of
           None \<Rightarrow> []
         | Some (Some conds) \<Rightarrow> map S conds
         | Some None \<Rightarrow> map fst org) gs"
    by (rule list_all2_mono [OF H(2)]) (rule step)
  with H(1,3,4,5,6) show ?thesis by blast
qed

text \<open>
  In the example two effect maps are merged: \<open>NumLevelTimepoints\<close> is 2, and the DOF
  volume holds 6 in the two voxels of the first run and 5 in those of the second.
\<close>

theorem C9_timepoints_and_dof_volume_witness:
  "list_outputs_higher ex_env ex_step ex_maps ex_metadata ''/deriv'' None []
     = Inr (ex_out, ex_files)
   \<and> map (\<lambda>e. map_of e ''NumLevelTimepoints'') (out_contrast_metadata ex_out) = [Some (I 2)]
   \<and> map_of (out_saved ex_out) (hd (out_effect_maps ex_out))
       = Some \<lparr>shape = [2, 1, 1, 2], dataobj = [3, 4, 5, 6], affine = [1]\<rparr>
   \<and> map_of (out_saved ex_out) (hd (out_dof_maps ex_out))
       = Some \<lparr>shape = [2, 1, 1, 2], dataobj = [6, 6, 5, 5], affine = [1]\<rparr>"
  using C9_timepoints_and_dof_volume [OF ex_first_run] ex_first_run
  by (simp add: ex_out_def)

subsection \<open>The matrix files\<close>

lemma matrix_type_loop_three:
  assumes "matrix_type_loop E entity K [Design, Contrast, Covariance] entity (mp, fs) = Inr (mp', fs')"
  shows "\<exists>p1 p2 c cam t1 t2 t3.
       map_of entity ''contrast'' = Some c
     \<and> snake_to_camel E c = Inr cam
     \<and> build_path E (AList.update ''desc'' (S ''contrast'') entity) matrix_patt = Some p1
     \<and> build_path E (AList.update ''contrast'' cam (AList.update ''desc'' (S ''contrast'') entity))
          matrix_patt = Some p2
     \<and> matrix_text Design c K = Inr t1
     \<and> matrix_text Contrast cam K = Inr t2
     \<and> matrix_text Covariance cam K = Inr t3
     \<and> design_matrices mp' = design_matrices mp @ [path_join (cwd E) p1]
     \<and> contrast_matrices mp' = contrast_matrices mp @ [path_join (cwd E) p2]
     \<and> covariance_matrices mp' = covariance_matrices mp @ [path_join (cwd E) p2]
     \<and> fs' = append_file (path_join (cwd E) p2) t3
               (append_file (path_join (cwd E) p2) t2
                  (append_file (path_join (cwd E) p1) t1 fs))"
proof -
  define e1 where "e1 = AList.update ''desc'' (S ''contrast'') entity"
  obtain p1 where p1: "build_path E e1 matrix_patt = Some p1"
    using assms by (auto simp: e1_def Let_def split: option.splits)
  obtain c where c: "map_of entity ''contrast'' = Some c"
    using assms p1 by (auto simp: e1_def Let_def split: option.splits)
  have c1: "map_of e1 ''contrast'' = Some c"
    using c by (simp add: e1_def update_conv')
  obtain cam where cam: "snake_to_camel E c = Inr cam"
    using assms p1 c c1 by (auto simp: e1_def Let_def split: sum.splits)
  obtain t1 where t1: "matrix_text Design c K = Inr t1"
    using assms p1 c c1 cam by (auto simp: e1_def Let_def split: sum.splits)
  define e2 where "e2 = AList.update ''contrast'' cam e1"
  have d2: "map_of e2 ''desc'' = Some (S ''contrast'')" and c2: "map_of e2 ''contrast'' = Some cam"
    by (simp_all add: e2_def e1_def update_conv')
  have fix1: "AList.update ''desc'' (S ''contrast'') e2 = e2"
    by (rule update_triv [OF d2])
  have fix2: "AList.update ''contrast'' cam e2 = e2"
    by (rule update_triv [OF c2])
  have step1: "matrix_type_loop E entity K [Design, Contrast, Covariance] entity (mp, fs)
     = matrix_type_loop E entity K [Contrast, Covariance] e2
         (add_matrix Design (path_join (cwd E) p1) mp, append_file (path_join (cwd E) p1) t1 fs)"
    using p1 c c1 cam t1 by (simp add: e1_def [symmetric] e2_def [symmetric] Let_def)
  obtain p2 where p2: "build_path E e2 matrix_patt = Some p2"
    using assms [unfolded step1] by (auto simp: fix1 Let_def split: option.splits)
  obtain t2 where t2: "matrix_text Contrast cam K = Inr t2"
    using assms [unfolded step1] p2 c c2 cam by (auto simp: fix1 Let_def split: sum.splits)
  have step2: "matrix_type_loop E entity K [Contrast, Covariance] e2 (mpa, fsa)
     = matrix_type_loop E entity K [Covariance] e2
         (add_matrix Contrast (path_join (cwd E) p2) mpa, append_file (path_join (cwd E) p2) t2 fsa)"
    for mpa fsa
    using p2 c c2 cam t2 by (simp add: fix1 fix2 Let_def)
  obtain t3 where t3: "matrix_text Covariance cam K = Inr t3"
    using assms [unfolded step1 step2] p2 c c2 cam by (auto simp: fix1 Let_def split: sum.splits)
  have step3: "matrix_type_loop E entity K [Covariance] e2 (mpa, fsa)
     = Inr (add_matrix Covariance (path_join (cwd E) p2) mpa, append_file (path_join (cwd E) p2) t3 fsa)"
    for mpa fsa
    using p2 c c2 cam t3 by (simp add: fix1 fix2 Let_def)
  have res: "mp' = add_matrix Covariance (path_join (cwd E) p2)
                 (add_matrix Contrast (path_join (cwd E) p2)
                    (add_matrix Design (path_join (cwd E) p1) mp))"
    "fs' = append_file (path_join (cwd E) p2) t3
               (append_file (path_join (cwd E) p2) t2
                  (append_file (path_join (cwd E) p1) t1 fs))"
    using assms [unfolded step1 step2 step3] by simp_all
  have lists: "design_matrices mp' = design_matrices mp @ [path_join (cwd E) p1]"
    "contrast_matrices mp' = contrast_matrices mp @ [path_join (cwd E) p2]"
    "covariance_matrices mp' = covariance_matrices mp @ [path_join (cwd E) p2]"
    unfolding res(1) by (simp_all add: add_matrix_def)
  from c cam p1 p2 t1 t2 t3 lists res(2) show ?thesis
    unfolding e2_def e1_def by blast
qed

lemma append_file_lookup:
  "map_of (append_file p t fs) q =
     (if q = p then Some ((case map_of fs p of None \<Rightarrow> [] | Some old \<Rightarrow> old) @ t)
      else map_of fs q)"
  by (simp add: append_file_def update_conv')

lemma append_file_grows:
  assumes "map_of fs q = Some x"
  shows "\<exists>post. map_of (append_file p t fs) q = Some (x @ post)"
  using assms by (auto simp: append_file_lookup)

lemma matrix_type_loop_grows:
  assumes "matrix_type_loop E entity K [Design, Contrast, Covariance] entity (mp, fs) = Inr (mp', fs')"
    and "map_of fs q = Some x"
  shows "\<exists>post. map_of fs' q = Some (x @ post)"
proof -
  from matrix_type_loop_three [OF assms(1)] obtain a b t1 t2 t3 where
    fs': "fs' = append_file b t3 (append_file b t2 (append_file a t1 fs))"
    by blast
  from append_file_grows [OF assms(2)] obtain u1 where
    1: "map_of (append_file a t1 fs) q = Some (x @ u1)" by blast
  from append_file_grows [OF 1] obtain u2 where
    2: "map_of (append_file b t2 (append_file a t1 fs)) q = Some ((x @ u1) @ u2)" by blast
  from append_file_grows [OF 2] obtain u3 where
    3: "map_of (append_file b t3 (append_file b t2 (append_file a t1 fs))) q
          = Some (((x @ u1) @ u2) @ u3)" by blast
  show ?thesis
    unfolding fs' using 3 by (intro exI [of _ "u1 @ u2 @ u3"]) simp
qed

lemma produce_matrices_loop_grows:
  "produce_matrices_loop E es (mp, fs) = Inr (mp', fs') \<Longrightarrow> map_of fs q = Some x \<Longrightarrow>
   \<exists>post. map_of fs' q = Some (x @ post)"
proof (induction es arbitrary: mp fs x)
  case Nil
  then show ?case by simp
next
  case (Cons entity rest)
  obtain K where K: "map_of entity ''NumLevelTimepoints'' = Some K"
    using Cons.prems(1) by (auto split: option.splits)
  obtain mp1 fs1 where one:
    "matrix_type_loop E entity K [Design, Contrast, Covariance] entity (mp, fs) = Inr (mp1, fs1)"
    using Cons.prems(1) K by (auto split: sum.splits)
  have rec: "produce_matrices_loop E rest (mp1, fs1) = Inr (mp', fs')"
    using Cons.prems(1) K one by simp
  from matrix_type_loop_grows [OF one Cons.prems(2)] obtain u where
    u: "map_of fs1 q = Some (x @ u)" by blast
  from Cons.IH [OF rec u] obtain w where "map_of fs' q = Some ((x @ u) @ w)" by blast
  then show ?case by (intro exI [of _ "u @ w"]) simp
qed

lemma produce_matrices_loop_result:
  "produce_matrices_loop E es (mp, fs) = Inr (mp', fs') \<Longrightarrow>
   \<exists>ps. contrast_matrices mp' = contrast_matrices mp @ ps
      \<and> covariance_matrices mp' = covariance_matrices mp @ ps
      \<and> list_all2
          (\<lambda>entity p. \<exists>K c cam rel t2 t3 pre post.
               map_of entity ''NumLevelTimepoints'' = Some K
             \<and> map_of entity ''contrast'' = Some c
             \<and> snake_to_camel E c = Inr cam
             \<and> build_path E (AList.update ''contrast'' cam
                    (AList.update ''desc'' (S ''contrast'') entity)) matrix_patt = Some rel
             \<and> p = path_join (cwd E) rel
             \<and> matrix_text Contrast cam K = Inr t2
             \<and> matrix_text Covariance cam K = Inr t3
             \<and> map_of fs' p = Some (pre @ t2 @ t3 @ post))
          es ps"
proof (induction es arbitrary: mp fs)
  case Nil
  then show ?case by simp
next
  case (Cons entity rest)
  obtain K where K: "map_of entity ''NumLevelTimepoints'' = Some K"
    using Cons.prems(1) by (auto split: option.splits)
  obtain mp1 fs1 where one:
    "matrix_type_loop E entity K [Design, Contrast, Covariance] entity (mp, fs) = Inr (mp1, fs1)"
    using Cons.prems(1) K by (auto split: sum.splits)
  have rec: "produce_matrices_loop E rest (mp1, fs1) = Inr (mp', fs')"
    using Cons.prems(1) K one by simp
  from matrix_type_loop_three [OF one] obtain p1 p2 c cam t1 t2 t3 where T:
    "map_of entity ''contrast'' = Some c"
    "snake_to_camel E c = Inr cam"
    "matrix_text Contrast cam K = Inr t2"
    "matrix_text Covariance cam K = Inr t3"
    "contrast_matrices mp1 = contrast_matrices mp @ [path_join (cwd E) p2]"
    "covariance_matrices mp1 = covariance_matrices mp @ [path_join (cwd E) p2]"
    "fs1 = append_file (path_join (cwd E) p2) t3
               (append_file (path_join (cwd E) p2) t2
                  (append_file (path_join (cwd E) p1) t1 fs))"
    "build_path E (AList.update ''contrast'' cam (AList.update ''desc'' (S ''contrast'') entity))
          matrix_patt = Some p2"
    by blast
  define pre where "pre = (case map_of (append_file (path_join (cwd E) p1) t1 fs)
                                  (path_join (cwd E) p2) of None \<Rightarrow> [] | Some old \<Rightarrow> old)"
  have here: "map_of fs1 (path_join (cwd E) p2) = Some (pre @ t2 @ t3)"
    unfolding T(7) pre_def by (simp add: append_file_lookup)
  from produce_matrices_loop_grows [OF rec here] obtain post where
    post: "map_of fs' (path_join (cwd E) p2) = Some ((pre @ t2 @ t3) @ post)" by blast
  from Cons.IH [OF rec] obtain ps where P:
    "contrast_matrices mp' = contrast_matrices mp1 @ ps"
    "covariance_matrices mp' = covariance_matrices mp1 @ ps"
    "list_all2
          (\<lambda>entity p. \<exists>K c cam rel t2 t3 pre post.
               map_of entity ''NumLevelTimepoints'' = Some K
             \<and> map_of entity ''contrast'' = Some c
             \<and> snake_to_camel E c = Inr cam
             \<and> build_path E (AList.update ''contrast'' cam
                    (AList.update ''desc'' (S ''contrast'') entity)) matrix_patt = Some rel
             \<and> p = path_join (cwd E) rel
             \<and> matrix_text Contrast cam K = Inr t2
             \<and> matrix_text Covariance cam K = Inr t3
             \<and> map_of fs' p = Some (pre @ t2 @ t3 @ post))
          rest ps"
    by blast
  have head: "\<exists>K c cam rel t2 t3 pre post.
               map_of entity ''NumLevelTimepoints'' = Some K
             \<and> map_of entity ''contrast'' = Some c
             \<and> snake_to_camel E c = Inr cam
             \<and> build_path E (AList.update ''contrast'' cam
                    (AList.update ''desc'' (S ''contrast'') entity)) matrix_patt = Some rel
             \<and> path_join (cwd E) p2 = path_join (cwd E) rel
             \<and> matrix_text Contrast cam K = Inr t2
             \<and> matrix_text Covariance cam K = Inr t3
             \<and> map_of fs' (path_join (cwd E) p2) = Some (pre @ t2 @ t3 @ post)"
    using K T(1-4,8) post by auto
  show ?case
    apply (rule exI [of _ "path_join (cwd E) p2 # ps"])
    using P T(5,6) head by simp
qed

text \<open>
  Claim C10.  Whenever the aggregation returns, the list of contrast-matrix paths and
  the list of covariance-matrix paths are equal, one path per merged contrast group:
  for both the path is built from the entities with \<open>desc\<close> set to \<open>contrast\<close> and the
  camel-cased contrast name.  The file under that path holds, one after the other, the
  text written for the contrast matrix and the text written for the covariance matrix,
  after whatever the file held before and before whatever is appended later.
\<close>

theorem C10_contrast_and_covariance_share_path:
  assumes "list_outputs_higher E model contrast_maps contrast_metadata derivatives align_volumes fs
             = Inr (out, fs')"
  shows "out_contrast_matrices out = out_covariance_matrices out
    \<and> list_all2
        (\<lambda>entity p. \<exists>K c cam rel t2 t3 pre post.
             map_of entity ''NumLevelTimepoints'' = Some K
           \<and> map_of entity ''contrast'' = Some c
           \<and> snake_to_camel E c = Inr cam
           \<and> build_path E (AList.update ''contrast'' cam
                  (AList.update ''desc'' (S ''contrast'') entity)) matrix_patt = Some rel
           \<and> p = path_join (cwd E) rel
           \<and> matrix_text Contrast cam K = Inr t2
           \<and> matrix_text Covariance cam K = Inr t3
           \<and> map_of fs' p = Some (pre @ t2 @ t3 @ post))
        (out_contrast_metadata out) (out_contrast_matrices out)"
proof -
  obtain mp where mp: "produce_matrices_loop E (out_contrast_metadata out) (matrix_paths0, fs) = Inr (mp, fs')"
    and o: "out_contrast_matrices out = contrast_matrices mp"
       "out_covariance_matrices out = covariance_matrices mp"
    using assms
    by (auto simp: list_outputs_higher_def produce_matrices_def split: sum.splits)
  from produce_matrices_loop_result [OF mp] o show ?thesis
    by (auto simp: matrix_paths0_def)
qed

theorem C10_contrast_and_covariance_share_path_witness:
  "list_outputs_higher ex_env ex_step ex_maps ex_metadata ''/deriv'' None []
     = Inr (ex_out, ex_files)
   \<and> out_contrast_matrices ex_out = out_covariance_matrices ex_out
   \<and> out_contrast_matrices ex_out = [ex_contrast_path]
   \<and> map_of ex_files ex_contrast_path = Some (ex_contrast_text @ ex_covariance_text)"
proof -
  have "map_of ex_files ex_contrast_path = Some (ex_contrast_text @ ex_covariance_text)"
    by (simp add: ex_files_def ex_design_path_def ex_contrast_path_def)
  with C10_contrast_and_covariance_share_path [OF ex_first_run] ex_first_run show ?thesis
    by (simp add: ex_out_def)
qed

text \<open>
  Claim C3, at an input where the code and the claim part.  In the example two runs are
  merged, so \<open>NumLevelTimepoints\<close> is 2.  The file returned as the design matrix holds
  the four header lines, the blank line among them, and no body line: the lines \<open>1\<close>
  are written for the covariance type only.  The texts written for the contrast and
  the covariance matrix are as the claim says: one body line and two.
\<close>

theorem C3_design_matrix_at_failing_input:
  "list_outputs_higher ex_env ex_step ex_maps ex_metadata ''/deriv'' None []
     = Inr (ex_out, ex_files)
   \<and> map (\<lambda>e. map_of e ''NumLevelTimepoints'') (out_contrast_metadata ex_out) = [Some (I 2)]
   \<and> out_design_matrices ex_out = [ex_design_path]
   \<and> map_of ex_files ex_design_path
       = Some (unlines [''/NumWaves 1'', ''/NumPoints 2'', ''/PPHeights 1'', [], ''/Matrix''])
   \<and> matrix_text Design (S ''go_stop'') (I 2)
       = Inr (unlines [''/NumWaves 1'', ''/NumPoints 2'', ''/PPHeights 1'', [], ''/Matrix''])
   \<and> matrix_text Contrast (S ''goStop'') (I 2)
       = Inr (unlines [''/ContrastName1 goStop'', ''/NumWaves 1'', ''/NumPoints 1'', [],
                       ''/Matrix'', ''1''])
   \<and> matrix_text Covariance (S ''goStop'') (I 2)
       = Inr (unlines [''/NumWaves 1'', ''/NumPoints 2'', [], ''/Matrix'', ''1'', ''1''])"
proof -
  have a: "map_of ex_files ex_design_path
       = Some (unlines [''/NumWaves 1'', ''/NumPoints 2'', ''/PPHeights 1'', [], ''/Matrix''])"
    by (simp add: ex_files_def ex_design_text_def)
  have b: "matrix_text Design (S ''go_stop'') (I 2)
       = Inr (unlines [''/NumWaves 1'', ''/NumPoints 2'', ''/PPHeights 1'', [], ''/Matrix''])"
    by code_simp
  have c: "matrix_text Contrast (S ''goStop'') (I 2)
       = Inr (unlines [''/ContrastName1 goStop'', ''/NumWaves 1'', ''/NumPoints 1'', [],
                       ''/Matrix'', ''1''])"
    by code_simp
  have d: "matrix_text Covariance (S ''goStop'') (I 2)
       = Inr (unlines [''/NumWaves 1'', ''/NumPoints 2'', [], ''/Matrix'', ''1'', ''1''])"
    by code_simp
  from a b c d ex_first_run show ?thesis
    by (simp add: ex_out_def)
qed

text \<open>
  Claim C5, at an input where the code and the claim part.  The example aggregation is
  run in an empty working directory and then again, on the same inputs, in the
  directory the first run left.  The files are opened for appending: after the second
  run each matrix file holds its text twice, which is not what it held after the first.
\<close>

theorem C5_second_run_at_failing_input:
  "list_outputs_higher ex_env ex_step ex_maps ex_metadata ''/deriv'' None []
     = Inr (ex_out, ex_files)
   \<and> list_outputs_higher ex_env ex_step ex_maps ex_metadata ''/deriv'' None ex_files
     = Inr (ex_out,
            [(ex_design_path, ex_design_text @ ex_design_text),
             (ex_contrast_path,
              (ex_contrast_text @ ex_covariance_text) @ ex_contrast_text @ ex_covariance_text)])
   \<and> ex_files = [(ex_design_path, ex_design_text),
                 (ex_contrast_path, ex_contrast_text @ ex_covariance_text)]
   \<and> ex_design_text @ ex_design_text \<noteq> ex_design_text
   \<and> (ex_contrast_text @ ex_covariance_text) @ ex_contrast_text @ ex_covariance_text
        \<noteq> ex_contrast_text @ ex_covariance_text"
proof -
  have a: "list_outputs_higher ex_env ex_step ex_maps ex_metadata ''/deriv'' None ex_files
     = Inr (ex_out,
            [(ex_design_path, ex_design_text @ ex_design_text),
             (ex_contrast_path,
              (ex_contrast_text @ ex_covariance_text) @ ex_contrast_text @ ex_covariance_text)])"
    by code_simp
  have b: "ex_design_text @ ex_design_text \<noteq> ex_design_text"
    by (simp add: ex_design_text_def unlines_def)
  have c: "(ex_contrast_text @ ex_covariance_text) @ ex_contrast_text @ ex_covariance_text
        \<noteq> ex_contrast_text @ ex_covariance_text"
    by (simp add: ex_contrast_text_def unlines_def)
  from a b c ex_first_run show ?thesis
    by (simp add: ex_files_def)
qed

end
